theory Spec2Isabelle
  imports Main "HOL-Library.Monad_Syntax"
begin

section \<open>Data model\<close>

text \<open>
  Python strings are sequences of code points. A \<^typ>\<open>char\<close> stands for one code point in the
  range 0..255; texts with code points beyond that range are outside the model.
\<close>

subsection \<open>Errors (handle\_error.py and the built-in exceptions the code can meet)\<close>

text \<open>
  The four exception classes of \<^verbatim>\<open>ErrorHandler\<close> take a message and an optional
  \<^verbatim>\<open>original_error\<close>. Built-in exceptions carry the message the runtime gives them; its
  wording is abbreviated here.
\<close>

datatype error =
    OSError string
  | ValueError string
  | KeyError string
  | AttributeError string
  | ZeroDivisionError string
  | ClientError string
  | TranscriptionError string "error option"
  | TranslationError string "error option"
  | SubtitlingError string "error option"
  | OutputGenerationError string "error option"

text \<open>\<^verbatim>\<open>str(e)\<close>: the custom classes override \<^verbatim>\<open>__str__\<close> to print the original error only.\<close>

fun str_error :: "error \<Rightarrow> string" where
  "str_error (OSError m) = m"
| "str_error (ValueError m) = m"
| "str_error (KeyError m) = m"
| "str_error (AttributeError m) = m"
| "str_error (ZeroDivisionError m) = m"
| "str_error (ClientError m) = m"
| "str_error (TranscriptionError m oe) =
     ''TranscriptionError: '' @ (case oe of None \<Rightarrow> ''None'' | Some e \<Rightarrow> str_error e)"
| "str_error (TranslationError m oe) =
     ''TranslationError: '' @ (case oe of None \<Rightarrow> ''None'' | Some e \<Rightarrow> str_error e)"
| "str_error (SubtitlingError m oe) =
     ''SubtitlingError: '' @ (case oe of None \<Rightarrow> ''None'' | Some e \<Rightarrow> str_error e)"
| "str_error (OutputGenerationError m oe) =
     ''OutputGenerationError: '' @ (case oe of None \<Rightarrow> ''None'' | Some e \<Rightarrow> str_error e)"

subsection \<open>TranscriptDataHandler (process\_request.py)\<close>

text \<open>
  The handler owns two Python lists. Lists are mutable objects, so they live in an explicit
  heap: a list of list objects, addressed by position. Allocation appends a new object, so a
  new address is always unused.
\<close>

type_synonym entry = "string \<times> bool"
type_synonym heap = "entry list list"

record TranscriptDataHandler =
  transcript_data :: nat
  translated_data :: nat

definition handler_ok :: "TranscriptDataHandler \<Rightarrow> heap \<Rightarrow> bool" where
  "handler_ok self h \<longleftrightarrow>
     transcript_data self < length h \<and> translated_data self < length h \<and>
     transcript_data self \<noteq> translated_data self"

definition TranscriptDataHandler_init :: "heap \<Rightarrow> TranscriptDataHandler \<times> heap" where
  "TranscriptDataHandler_init h =
     (\<lparr>transcript_data = length h, translated_data = Suc (length h)\<rparr>, h @ [[], []])"

definition store_transcript_data ::
  "TranscriptDataHandler \<Rightarrow> string \<Rightarrow> bool \<Rightarrow> heap \<Rightarrow> heap" where
  "store_transcript_data self transcript_text is_partial h =
     h[transcript_data self := h ! transcript_data self @ [(transcript_text, is_partial)]]"

definition get_transcript_data :: "TranscriptDataHandler \<Rightarrow> heap \<Rightarrow> nat \<times> heap" where
  "get_transcript_data self h = (length h, h @ [h ! transcript_data self])"

definition store_translated_data ::
  "TranscriptDataHandler \<Rightarrow> string \<Rightarrow> bool \<Rightarrow> heap \<Rightarrow> heap" where
  "store_translated_data self translated_text is_partial h =
     h[translated_data self := h ! translated_data self @ [(translated_text, is_partial)]]"

definition get_translated_data :: "TranscriptDataHandler \<Rightarrow> heap \<Rightarrow> nat \<times> heap" where
  "get_translated_data self h = (length h, h @ [h ! translated_data self])"

subsection \<open>Character classes of Python's \<^verbatim>\<open>str\<close> and \<^verbatim>\<open>re\<close>\<close>

text \<open>The classes are those of CPython 3 on the code points 0..255.\<close>

definition is_digit :: "char \<Rightarrow> bool" where
  \<comment> \<open>\<^verbatim>\<open>\d\<close> and \<^verbatim>\<open>[0-9]\<close>\<close>
  "is_digit c \<longleftrightarrow> 48 \<le> (of_char c :: nat) \<and> (of_char c :: nat) \<le> 57"

definition word_char :: "char \<Rightarrow> bool" where
  \<comment> \<open>\<^verbatim>\<open>\w\<close>: alphanumeric code points and the underscore\<close>
  "word_char c \<longleftrightarrow>
     (let n = (of_char c :: nat) in
        (48 \<le> n \<and> n \<le> 57) \<or> (65 \<le> n \<and> n \<le> 90) \<or> n = 95 \<or> (97 \<le> n \<and> n \<le> 122) \<or>
        n = 170 \<or> n = 178 \<or> n = 179 \<or> n = 181 \<or> n = 185 \<or> n = 186 \<or>
        (188 \<le> n \<and> n \<le> 190) \<or> (192 \<le> n \<and> n \<le> 214) \<or> (216 \<le> n \<and> n \<le> 246) \<or>
        (248 \<le> n \<and> n \<le> 255))"

definition isspace :: "char \<Rightarrow> bool" where
  \<comment> \<open>\<^verbatim>\<open>str.isspace\<close>, the characters \<^verbatim>\<open>str.strip()\<close> and \<^verbatim>\<open>str.split()\<close> remove\<close>
  "isspace c \<longleftrightarrow>
     (let n = (of_char c :: nat) in
        (9 \<le> n \<and> n \<le> 13) \<or> (28 \<le> n \<and> n \<le> 32) \<or> n = 133 \<or> n = 160)"

definition punctuation_char :: "char \<Rightarrow> bool" where
  \<comment> \<open>\<^verbatim>\<open>[.,?!]\<close>\<close>
  "punctuation_char c \<longleftrightarrow> c = CHR ''.'' \<or> c = CHR '','' \<or> c = CHR ''?'' \<or> c = CHR ''!''"

definition sentence_char :: "char \<Rightarrow> bool" where
  \<comment> \<open>\<^verbatim>\<open>[.!?]\<close>\<close>
  "sentence_char c \<longleftrightarrow> c = CHR ''.'' \<or> c = CHR ''!'' \<or> c = CHR ''?''"

subsection \<open>SubtitleGenerator.calculate\_end\_time (generate\_subtitle.py)\<close>

text \<open>\<^verbatim>\<open>re.findall(r'\w+', text)\<close>: the maximal runs of word characters, left to right.\<close>

fun findall_word_from :: "string \<Rightarrow> string \<Rightarrow> string list" where
  "findall_word_from cur [] = (if cur = [] then [] else [cur])"
| "findall_word_from cur (c # cs) =
     (if word_char c then findall_word_from (cur @ [c]) cs
      else (if cur = [] then [] else [cur]) @ findall_word_from [] cs)"

definition findall_word :: "string \<Rightarrow> string list" where
  "findall_word text = findall_word_from [] text"

text \<open>\<^verbatim>\<open>re.findall(r'[.,?!]', text)\<close>: one match for each such character.\<close>

definition findall_punctuation :: "string \<Rightarrow> string list" where
  "findall_punctuation text = map (\<lambda>c. [c]) (filter punctuation_char text)"

text \<open>\<^verbatim>\<open>re.split(r'[.!?]', text)\<close>: the pieces between the separators, empty ones included.\<close>

fun re_split_from :: "string \<Rightarrow> string \<Rightarrow> string list" where
  "re_split_from cur [] = [cur]"
| "re_split_from cur (c # cs) =
     (if sentence_char c then cur # re_split_from [] cs else re_split_from (cur @ [c]) cs)"

definition re_split_sentence :: "string \<Rightarrow> string list" where
  "re_split_sentence text = re_split_from [] text"

text \<open>
  \<^verbatim>\<open>datetime.strptime(start_time, "%H:%M:%S.%f")\<close>. Each of hour, minute and second is one or
  two digits, the fraction is one to six digits, padded with zeros on the right to
  microseconds, and nothing may follow. The date is 1900-01-01, so the result is given in
  microseconds since 1900-01-01 00:00:00.
\<close>

definition digits_value :: "string \<Rightarrow> nat" where
  "digits_value ds = foldl (\<lambda>n c. 10 * n + ((of_char c :: nat) - 48)) 0 ds"

definition field :: "nat \<Rightarrow> nat \<Rightarrow> string \<Rightarrow> (nat \<times> string) option" where
  "field width maxv s =
     (let ds = takeWhile is_digit (take width s) in
      if ds = [] \<or> maxv < digits_value ds then None
      else Some (digits_value ds, drop (length ds) s))"

definition literal :: "char \<Rightarrow> string \<Rightarrow> string option" where
  "literal c s = (case s of [] \<Rightarrow> None | x # r \<Rightarrow> if x = c then Some r else None)"

definition strptime_fields :: "string \<Rightarrow> (nat \<times> nat \<times> nat \<times> string \<times> string) option" where
  "strptime_fields s = do {
     (h, r1) \<leftarrow> field 2 23 s;
     r2 \<leftarrow> literal CHR '':'' r1;
     (m, r3) \<leftarrow> field 2 59 r2;
     r4 \<leftarrow> literal CHR '':'' r3;
     (sec, r5) \<leftarrow> field 2 61 r4;
     r6 \<leftarrow> literal CHR ''.'' r5;
     let f = takeWhile is_digit (take 6 r6);
     if f = [] then None else Some (h, m, sec, f, drop (length f) r6)
   }"

definition strptime :: "string \<Rightarrow> error + nat" where
  "strptime s =
     (case strptime_fields s of
        None \<Rightarrow> Inl (ValueError ''time data does not match format'')
      | Some (h, m, sec, f, rest) \<Rightarrow>
          if rest \<noteq> [] then Inl (ValueError ''unconverted data remains'')
          else if 59 < sec then Inl (ValueError ''second must be in 0..59'')
          else Inr (((h * 60 + m) * 60 + sec) * 1000000
                    + digits_value (f @ replicate (6 - length f) CHR ''0'')))"

text \<open>
  The duration. Python computes \<^verbatim>\<open>word_count * (60 / wpm) + punctuation_count * 1.2 +
  sentence_count * 3\<close> in binary floating point and \<^verbatim>\<open>timedelta(seconds=...)\<close> rounds it to
  whole microseconds, ties to even. The model computes the same value exactly and rounds in
  the same way. The two agree as long as the floating-point error, about \<open>10\<^sup>-\<^sup>1\<^sup>6\<close> of the
  value, does not reach across a tie; for 150 words per minute, the value every caller uses,
  the exact value is a whole number of microseconds and they agree for every text of less
  than \<open>10\<^sup>8\<close> characters. The range limit of \<^verbatim>\<open>datetime\<close> (year 9999) is not modelled.
\<close>

definition round_half_even_div :: "int \<Rightarrow> int \<Rightarrow> int" where
  "round_half_even_div a b =
     (let q = a div b; r = a mod b in
      if 2 * \<bar>r\<bar> < \<bar>b\<bar> then q
      else if \<bar>b\<bar> < 2 * \<bar>r\<bar> then q + 1
      else if even q then q else q + 1)"

definition additional_microseconds :: "string \<Rightarrow> int \<Rightarrow> int" where
  "additional_microseconds text average_words_per_minute =
     (let word_count = int (length (findall_word text));
          punctuation_count = int (length (findall_punctuation text));
          sentence_count = int (length (re_split_sentence text))
      in round_half_even_div
           (word_count * 60000000
            + average_words_per_minute * (punctuation_count * 1200000 + sentence_count * 3000000))
           average_words_per_minute)"

text \<open>
  \<^verbatim>\<open>end_dt.strftime("%H:%M:%S.%f")\<close> prints the time of day of \<^verbatim>\<open>end_dt\<close>, the date is
  dropped; \<^verbatim>\<open>[:-3]\<close> cuts the last three of the six fraction digits.
\<close>

definition digit_char :: "nat \<Rightarrow> char" where
  "digit_char k = ''0123456789'' ! k"

fun pad_decimal :: "nat \<Rightarrow> nat \<Rightarrow> string" where
  \<comment> \<open>the last \<open>w\<close> decimal digits of \<open>n\<close>, zero-padded: \<^verbatim>\<open>%02d\<close> for a value below 100\<close>
  "pad_decimal 0 n = []"
| "pad_decimal (Suc w) n = pad_decimal w (n div 10) @ [digit_char (n mod 10)]"

definition time_of_day :: "int \<Rightarrow> nat" where
  "time_of_day dt = nat (dt mod 86400000000)"

definition strftime :: "int \<Rightarrow> string" where
  "strftime dt =
     (let t = time_of_day dt in
      pad_decimal 2 (t div 3600000000) @ '':'' @ pad_decimal 2 (t div 60000000 mod 60) @ '':'' @
      pad_decimal 2 (t div 1000000 mod 60) @ ''.'' @ pad_decimal 6 (t mod 1000000))"

definition calculate_end_time :: "string option \<Rightarrow> string \<Rightarrow> int \<Rightarrow> error + string option" where
  "calculate_end_time start_time text average_words_per_minute =
     (case start_time of
        None \<Rightarrow> Inr None
      | Some st \<Rightarrow>
          (case strptime st of
             Inl e \<Rightarrow> Inl e
           | Inr start_dt \<Rightarrow>
               if average_words_per_minute = 0 then Inl (ZeroDivisionError ''division by zero'')
               else
                 let end_dt = int start_dt + additional_microseconds text average_words_per_minute;
                     s = strftime end_dt
                 in Inr (Some (take (length s - 3) s @ ''Z''))))"

text \<open>
  The spec's wording of the word count, for comparison with \<^const>\<open>findall_word\<close>: the number
  of whitespace-delimited tokens, as \<^verbatim>\<open>len(text.split())\<close> counts them.
\<close>

fun whitespace_tokens_from :: "string \<Rightarrow> string \<Rightarrow> string list" where
  "whitespace_tokens_from cur [] = (if cur = [] then [] else [cur])"
| "whitespace_tokens_from cur (c # cs) =
     (if isspace c then (if cur = [] then [] else [cur]) @ whitespace_tokens_from [] cs
      else whitespace_tokens_from (cur @ [c]) cs)"

definition spec_additional_microseconds :: "string \<Rightarrow> int" where
  "spec_additional_microseconds text =
     int (length (whitespace_tokens_from [] text)) * 400000
     + int (length (findall_punctuation text)) * 1200000
     + int (length (re_split_sentence text)) * 3000000"


subsection \<open>Configuration (models.py, core.py)\<close>

text \<open>
  The four enumerations derive from \<^verbatim>\<open>str\<close>: a member is the string that is its value. The
  language enumerations are given as the list of their members, name and value, in the order
  of definition, which is the order the lookup runs through. (The one member name that is not
  ASCII is written in ASCII; names play no part in the lookup.)
\<close>

type_synonym enum_member = "string \<times> string"

definition SourceLanguage :: "enum_member list" where
  "SourceLanguage = [(''English'', ''en-US'')]"

definition TargetLanguage :: "enum_member list" where
  "TargetLanguage =
    [(''Afrikaans'', ''af''), (''Albanian'', ''sq''), (''Amharic'', ''am''),
     (''Arabic'', ''ar''), (''Armenian'', ''hy''), (''Azerbaijani'', ''az''),
     (''Bengali'', ''bn''), (''Bosnian'', ''bs''), (''Bulgarian'', ''bg''),
     (''Catalan'', ''ca''), (''Chinese_Simplified'', ''zh''),
     (''Chinese_Traditional'', ''zh-TW''), (''Croatian'', ''hr''), (''Czech'', ''cs''),
     (''Danish'', ''da''), (''Dari'', ''fa-AF''), (''Dutch'', ''nl''), (''Estonian'', ''et''),
     (''Farsi_Persian'', ''fa''), (''Filipino_Tagalog'', ''tl''), (''Finnish'', ''fi''),
     (''French'', ''fr''), (''French_Canada'', ''fr-CA''), (''Georgian'', ''ka''),
     (''German'', ''de''), (''Greek'', ''el''), (''Gujarati'', ''gu''),
     (''Haitian_Creole'', ''ht''), (''Hausa'', ''ha''), (''Hebrew'', ''he''),
     (''Hindi'', ''hi''), (''Hungarian'', ''hu''), (''Icelandic'', ''is''),
     (''Indonesian'', ''id''), (''Irish'', ''ga''), (''Italian'', ''it''),
     (''Japanese'', ''ja''), (''Kannada'', ''kn''), (''Kazakh'', ''kk''), (''Korean'', ''ko''),
     (''Latvian'', ''lv''), (''Lithuanian'', ''lt''), (''Macedonian'', ''mk''),
     (''Malay'', ''ms''), (''Malayalam'', ''ml''), (''Maltese'', ''mt''),
     (''Marathi'', ''mr''), (''Mongolian'', ''mn''), (''Norwegian_Bokmal'', ''no''),
     (''Pashto'', ''ps''), (''Polish'', ''pl''), (''Portuguese_Brazil'', ''pt''),
     (''Portuguese_Portugal'', ''pt-PT''), (''Punjabi'', ''pa''), (''Romanian'', ''ro''),
     (''Russian'', ''ru''), (''Serbian'', ''sr''), (''Sinhala'', ''si''), (''Slovak'', ''sk''),
     (''Slovenian'', ''sl''), (''Somali'', ''so''), (''Spanish'', ''es''),
     (''Spanish_Mexico'', ''es-MX''), (''Swahili'', ''sw''), (''Swedish'', ''sv''),
     (''Tamil'', ''ta''), (''Telugu'', ''te''), (''Thai'', ''th''), (''Turkish'', ''tr''),
     (''Ukrainian'', ''uk''), (''Urdu'', ''ur''), (''Uzbek'', ''uz''),
     (''Vietnamese'', ''vi''), (''Welsh'', ''cy'')]"

datatype SubtitleFormat = SRT | VTT

fun SubtitleFormat_value :: "SubtitleFormat \<Rightarrow> string" where
  "SubtitleFormat_value SRT = ''srt''"
| "SubtitleFormat_value VTT = ''vtt''"

datatype OutputFormat = TRANSCRIPT_TEXT | TRANSLATED_TEXT | BOTH_TEXT | NONE

fun OutputFormat_value :: "OutputFormat \<Rightarrow> string" where
  "OutputFormat_value TRANSCRIPT_TEXT = ''transcript_text''"
| "OutputFormat_value TRANSLATED_TEXT = ''translated_text''"
| "OutputFormat_value BOTH_TEXT = ''both_text''"
| "OutputFormat_value NONE = ''none''"

text \<open>The calls \<^verbatim>\<open>SubtitleFormat(v)\<close> and \<^verbatim>\<open>OutputFormat(v)\<close>: the member with value \<open>v\<close>.\<close>

definition SubtitleFormat_call :: "string \<Rightarrow> error + SubtitleFormat" where
  "SubtitleFormat_call v =
     (if v = ''srt'' then Inr SRT else if v = ''vtt'' then Inr VTT
      else Inl (ValueError ''not a valid SubtitleFormat''))"

definition OutputFormat_call :: "string \<Rightarrow> error + OutputFormat" where
  "OutputFormat_call v =
     (if v = ''transcript_text'' then Inr TRANSCRIPT_TEXT
      else if v = ''translated_text'' then Inr TRANSLATED_TEXT
      else if v = ''both_text'' then Inr BOTH_TEXT
      else if v = ''none'' then Inr NONE
      else Inl (ValueError ''not a valid OutputFormat''))"

text \<open>
  The fields of \<^verbatim>\<open>UserInput\<close> hold what the caller passes: \<^verbatim>\<open>from_input_data\<close> passes
  strings and enumeration members (their value strings here), the command line of core.py
  passes the raw arguments, \<^verbatim>\<open>None\<close> for an option that is not given.
\<close>

record UserInput =
  source_language :: string
  target_language :: string
  subtitle_format :: "string option"
  region :: "string option"
  output_format :: "string option"

text \<open>\<^verbatim>\<open>sub in s\<close> on strings: \<open>sub\<close> occurs in \<open>s\<close> as a contiguous piece.\<close>

fun str_contains :: "string \<Rightarrow> string \<Rightarrow> bool" where
  "str_contains sub [] = (sub = [])"
| "str_contains sub (c # cs) = (take (length sub) (c # cs) = sub \<or> str_contains sub cs)"

definition get_language_enum :: "enum_member list \<Rightarrow> string \<Rightarrow> enum_member option" where
  "get_language_enum enum_cls language_code =
     find (\<lambda>language_enum. str_contains language_code (snd language_enum)) enum_cls"

definition get_source_language_enum :: "string \<Rightarrow> enum_member option" where
  "get_source_language_enum language_code = get_language_enum SourceLanguage language_code"

definition get_target_language_enum :: "string \<Rightarrow> enum_member option" where
  "get_target_language_enum language_code = get_language_enum TargetLanguage language_code"

definition subscript :: "(string \<rightharpoonup> string) \<Rightarrow> string \<Rightarrow> error + string" where
  \<comment> \<open>\<^verbatim>\<open>input_data[key]\<close>\<close>
  "subscript input_data key =
     (case input_data key of None \<Rightarrow> Inl (KeyError key) | Some v \<Rightarrow> Inr v)"

definition member_value :: "enum_member option \<Rightarrow> error + string" where
  \<comment> \<open>\<^verbatim>\<open>.value\<close> of the lookup result, which is \<^verbatim>\<open>None\<close> when nothing was found\<close>
  "member_value m =
     (case m of
        None \<Rightarrow> Inl (AttributeError ''NoneType object has no attribute value'')
      | Some language_enum \<Rightarrow> Inr (snd language_enum))"

definition from_input_data :: "(string \<rightharpoonup> string) \<Rightarrow> error + UserInput" where
  "from_input_data input_data =
     (case subscript input_data ''source_language'' of Inl e \<Rightarrow> Inl e | Inr source_code \<Rightarrow>
      case member_value (get_source_language_enum source_code) of Inl e \<Rightarrow> Inl e | Inr source \<Rightarrow>
      case subscript input_data ''target_language'' of Inl e \<Rightarrow> Inl e | Inr target_code \<Rightarrow>
      case member_value (get_target_language_enum target_code) of Inl e \<Rightarrow> Inl e | Inr target \<Rightarrow>
      case subscript input_data ''subtitle_format'' of Inl e \<Rightarrow> Inl e | Inr sf \<Rightarrow>
      case SubtitleFormat_call sf of Inl e \<Rightarrow> Inl e | Inr subtitle \<Rightarrow>
      let region = (case input_data ''region'' of None \<Rightarrow> ''us-east-1'' | Some r \<Rightarrow> r) in
      case OutputFormat_call
             (case input_data ''output_format'' of None \<Rightarrow> OutputFormat_value NONE | Some v \<Rightarrow> v)
      of Inl e \<Rightarrow> Inl e | Inr output \<Rightarrow>
      Inr \<lparr>source_language = source, target_language = target,
           subtitle_format = Some (SubtitleFormat_value subtitle), region = Some region,
           output_format = Some (OutputFormat_value output)\<rparr>)"

text \<open>
  core.py builds the configuration from the command line with the constructor itself, not with
  \<^verbatim>\<open>from_input_data\<close>: the two language arguments are required, the other three are
  \<^verbatim>\<open>None\<close> when absent.
\<close>

definition main_user_input ::
  "string \<Rightarrow> string \<Rightarrow> string option \<Rightarrow> string option \<Rightarrow> string option \<Rightarrow> UserInput" where
  "main_user_input source_language_arg target_language_arg subtitle_format_arg aws_region_arg
     output_format_arg =
     \<lparr>source_language = source_language_arg, target_language = target_language_arg,
      subtitle_format = subtitle_format_arg, region = aws_region_arg,
      output_format = output_format_arg\<rparr>"

subsection \<open>The environment: clock, files, translation service\<close>

text \<open>
  The code reads the wall clock, appends to files and calls a translation service. The state of
  these is passed explicitly. A file is the string of its content; \<open>open_error\<close> gives the
  paths that cannot be opened (missing directory, no permission) with the message of the
  \<^verbatim>\<open>OSError\<close>. The clock is the sequence of the readings \<^verbatim>\<open>datetime.now()\<close> will give,
  each in microseconds since midnight. The translation service is the sequence of its
  answers, an error message or the translated text, to the requests made of it; the requests
  made are logged. The heap holds the list objects of the transcript store.
\<close>

record world =
  files :: "string \<rightharpoonup> string"
  open_error :: "string \<rightharpoonup> string"
  clock :: "nat \<Rightarrow> nat"
  clock_reads :: nat
  translate_service :: "nat \<Rightarrow> string \<Rightarrow> string \<Rightarrow> string \<Rightarrow> string + string"
  translate_calls :: "(string \<times> string \<times> string) list"
  boto3_client_error :: "string option"
  heap :: heap

datatype 'a res = Return 'a world | Raise error world

definition now :: "world \<Rightarrow> nat \<times> world" where
  "now w = (clock w (clock_reads w), w\<lparr>clock_reads := Suc (clock_reads w)\<rparr>)"

definition newline :: string where
  "newline = [CHR 0x0A]"

definition open_append :: "string \<Rightarrow> world \<Rightarrow> error + world" where
  \<comment> \<open>\<^verbatim>\<open>open(path, "a")\<close> creates the file when it is missing\<close>
  "open_append path w =
     (case open_error w path of
        Some msg \<Rightarrow> Inl (OSError msg)
      | None \<Rightarrow>
          Inr (w\<lparr>files := (files w)(path \<mapsto> (case files w path of None \<Rightarrow> [] | Some c \<Rightarrow> c))\<rparr>))"

definition file_write :: "string \<Rightarrow> string \<Rightarrow> world \<Rightarrow> world" where
  "file_write path s w =
     w\<lparr>files := (files w)(path \<mapsto> (case files w path of None \<Rightarrow> [] | Some c \<Rightarrow> c) @ s)\<rparr>"

subsection \<open>SubtitleGenerator (generate\_subtitle.py)\<close>

definition file_empty :: "world \<Rightarrow> string \<Rightarrow> bool" where
  \<comment> \<open>\<^verbatim>\<open>os.stat(path).st_size == 0 if os.path.isfile(path) else True\<close>\<close>
  "file_empty w path = (case files w path of None \<Rightarrow> True | Some c \<Rightarrow> c = [])"

definition format_end_time :: "string option \<Rightarrow> string" where
  \<comment> \<open>\<^verbatim>\<open>f"{end_time}"\<close>\<close>
  "format_end_time end_time = (case end_time of None \<Rightarrow> ''None'' | Some s \<Rightarrow> s)"

definition generate_vtt_subtitle :: "string \<Rightarrow> string \<Rightarrow> bool \<Rightarrow> world \<Rightarrow> unit res" where
  "generate_vtt_subtitle subtitle_path translated_text partial_flag w =
     (let (t, w1) = now w;
          start_time = take 8 (strftime (int t)) @ ''.000''
      in case calculate_end_time (Some start_time) translated_text 150 of
           Inl e \<Rightarrow> Raise (SubtitlingError (''Subtitle generation error: '' @ str_error e) None) w1
         | Inr end_time \<Rightarrow>
             let empty = file_empty w1 (subtitle_path @ ''.vtt'')
             in case open_append (subtitle_path @ ''.vtt'') w1 of
                  Inl e \<Rightarrow>
                    Raise (SubtitlingError (''Subtitle generation error: '' @ str_error e) None) w1
                | Inr w2 \<Rightarrow>
                    Return ()
                      (file_write (subtitle_path @ ''.vtt'')
                         ((if empty then ''WEBVTT'' @ newline @ newline else []) @
                          start_time @ '' --> '' @ format_end_time end_time @ newline @
                          translated_text @ newline) w2))"

text \<open>
  \<^verbatim>\<open>f.readlines()\<close> in text mode: a line ends at \<^verbatim>\<open>\n\<close>, \<^verbatim>\<open>\r\n\<close> or \<^verbatim>\<open>\r\<close>, each read
  as \<^verbatim>\<open>\n\<close>; a last line without an end is a line too.
\<close>

fun readlines_from :: "string \<Rightarrow> string \<Rightarrow> string list" where
  "readlines_from cur [] = (if cur = [] then [] else [cur])"
| "readlines_from cur [c] =
     (if c = CHR 0x0A \<or> c = CHR 0x0D then [cur @ newline] else [cur @ [c]])"
| "readlines_from cur (c # d # cs) =
     (if c = CHR 0x0D \<and> d = CHR 0x0A then (cur @ newline) # readlines_from [] cs
      else if c = CHR 0x0A \<or> c = CHR 0x0D then (cur @ newline) # readlines_from [] (d # cs)
      else readlines_from (cur @ [c]) (d # cs))"

definition readlines :: "string \<Rightarrow> string list" where
  "readlines content = readlines_from [] content"

definition strip :: "string \<Rightarrow> string" where
  "strip s = rev (dropWhile isspace (rev (dropWhile isspace s)))"

definition isdigit :: "string \<Rightarrow> bool" where
  \<comment> \<open>\<^verbatim>\<open>str.isdigit\<close>: not empty, and digits only, the superscripts 1, 2, 3 among them\<close>
  "isdigit s \<longleftrightarrow>
     s \<noteq> [] \<and>
     list_all (\<lambda>c. is_digit c \<or> (of_char c :: nat) = 178 \<or> (of_char c :: nat) = 179 \<or>
                    (of_char c :: nat) = 185) s"

definition int_call :: "string \<Rightarrow> error + nat" where
  \<comment> \<open>\<^verbatim>\<open>int(s)\<close> for a string that passed \<^verbatim>\<open>isdigit\<close>: the superscripts are no decimal digits.
      (The limit of 4300 digits of recent Python versions is not modelled.)\<close>
  "int_call s =
     (if list_all is_digit s then Inr (digits_value s)
      else Inl (ValueError ''invalid literal for int() with base 10''))"

fun last_cue_number :: "string list \<Rightarrow> error + nat option" where
  \<comment> \<open>the loop over \<^verbatim>\<open>reversed(lines)\<close>, given the reversed list\<close>
  "last_cue_number [] = Inr None"
| "last_cue_number (line # lines) =
     (let stripped_line = strip line
      in if stripped_line \<noteq> [] \<and> isdigit stripped_line
         then (case int_call stripped_line of Inl e \<Rightarrow> Inl e | Inr n \<Rightarrow> Inr (Some n))
         else last_cue_number lines)"

definition get_next_cue_number :: "string \<Rightarrow> world \<Rightarrow> error + nat option" where
  "get_next_cue_number file_name w =
     (case files w file_name of
        None \<Rightarrow> Inr (Some 1)
      | Some content \<Rightarrow>
          (case open_error w file_name of
             Some msg \<Rightarrow> Inl (OSError msg)
           | None \<Rightarrow>
               let lines = readlines content
               in if length lines = 0 then Inr (Some 1)
                  else (case last_cue_number (rev lines) of
                          Inl e \<Rightarrow> Inl e
                        | Inr None \<Rightarrow> Inr None
                        | Inr (Some n) \<Rightarrow> Inr (Some (n + 1)))))"

function str_nat :: "nat \<Rightarrow> string" where
  \<comment> \<open>\<^verbatim>\<open>f"{cue}"\<close>: the decimal digits\<close>
  "str_nat n = (if n < 10 then [digit_char n] else str_nat (n div 10) @ [digit_char (n mod 10)])"
  by pat_completeness auto
termination
  by (relation "measure id") auto

definition generate_srt_subtitle :: "string \<Rightarrow> string \<Rightarrow> bool \<Rightarrow> world \<Rightarrow> unit res" where
  "generate_srt_subtitle subtitle_path translated_text partial_flag w =
     (let (t, w1) = now w;
          start_time = take 12 (strftime (int t))
      in case calculate_end_time (Some start_time) translated_text 150 of
           Inl e \<Rightarrow> Raise (SubtitlingError (''error generating subtitle: '' @ str_error e) None) w1
         | Inr end_time \<Rightarrow>
             let empty = file_empty w1 (subtitle_path @ ''.srt'')
             in case open_append (subtitle_path @ ''.srt'') w1 of
                  Inl e \<Rightarrow>
                    Raise (SubtitlingError (''error generating subtitle: '' @ str_error e) None) w1
                | Inr w2 \<Rightarrow>
                    (case get_next_cue_number (subtitle_path @ ''.srt'') w2 of
                       Inl e \<Rightarrow>
                         Raise (SubtitlingError (''error generating subtitle: '' @ str_error e) None)
                           w2
                     | Inr next_cue \<Rightarrow>
                         let cue = (case next_cue of None \<Rightarrow> 1
                                    | Some c \<Rightarrow> if empty then 1 else c)
                         in Return ()
                              (file_write (subtitle_path @ ''.srt'')
                                 (str_nat cue @ newline @
                                  start_time @ '' --> '' @ format_end_time end_time @ newline @
                                  translated_text @ newline @ newline) w2)))"

text \<open>
  A sequence of calls of one writer on one path, each with its text and partial flag, as the
  event handler makes them one after the other; an exception ends the sequence.
\<close>

fun generate_vtt_subtitles :: "string \<Rightarrow> (string \<times> bool) list \<Rightarrow> world \<Rightarrow> unit res" where
  "generate_vtt_subtitles subtitle_path [] w = Return () w"
| "generate_vtt_subtitles subtitle_path ((translated_text, partial_flag) # calls) w =
     (case generate_vtt_subtitle subtitle_path translated_text partial_flag w of
        Raise e w' \<Rightarrow> Raise e w'
      | Return u w' \<Rightarrow> generate_vtt_subtitles subtitle_path calls w')"

fun generate_srt_subtitles :: "string \<Rightarrow> (string \<times> bool) list \<Rightarrow> world \<Rightarrow> unit res" where
  "generate_srt_subtitles subtitle_path [] w = Return () w"
| "generate_srt_subtitles subtitle_path ((translated_text, partial_flag) # calls) w =
     (case generate_srt_subtitle subtitle_path translated_text partial_flag w of
        Raise e w' \<Rightarrow> Raise e w'
      | Return u w' \<Rightarrow> generate_srt_subtitles subtitle_path calls w')"

text \<open>
  What the WebVTT writer is expected to leave in its file, for the statement of the header
  property: the cue written at clock reading \<open>t\<close>, the cues of a sequence of calls, and the
  content they are appended to, which is the header when the file was missing or empty.
\<close>

definition vtt_cue :: "nat \<Rightarrow> string \<Rightarrow> string" where
  "vtt_cue t tx =
     (let start_time = take 8 (strftime (int t)) @ ''.000''
      in start_time @ '' --> '' @
         (case calculate_end_time (Some start_time) tx 150 of
            Inl e \<Rightarrow> [] | Inr end_time \<Rightarrow> format_end_time end_time) @
         newline @ tx @ newline)"

fun vtt_cues :: "(nat \<Rightarrow> nat) \<Rightarrow> nat \<Rightarrow> (string \<times> bool) list \<Rightarrow> string" where
  "vtt_cues clk i [] = []"
| "vtt_cues clk i ((tx, partial_flag) # calls) = vtt_cue (clk i) tx @ vtt_cues clk (Suc i) calls"

definition vtt_content :: "string option \<Rightarrow> string" where
  "vtt_content old =
     (case old of None \<Rightarrow> ''WEBVTT'' @ newline @ newline
      | Some c \<Rightarrow> if c = [] then ''WEBVTT'' @ newline @ newline else c)"

text \<open>An environment to start from: no files, every path can be opened, nothing on the heap.\<close>

definition initial_world ::
  "(nat \<Rightarrow> nat) \<Rightarrow> (nat \<Rightarrow> string \<Rightarrow> string \<Rightarrow> string \<Rightarrow> string + string) \<Rightarrow> world" where
  "initial_world clk service =
     \<lparr>files = Map.empty, open_error = Map.empty, clock = clk, clock_reads = 0,
      translate_service = service, translate_calls = [], boto3_client_error = None, heap = []\<rparr>"

subsection \<open>Translate (translate\_transcript.py)\<close>

definition Translate_init :: "world \<Rightarrow> unit res" where
  \<comment> \<open>the constructor makes the service client, which can fail\<close>
  "Translate_init w =
     (case boto3_client_error w of Some msg \<Rightarrow> Raise (ClientError msg) w | None \<Rightarrow> Return () w)"

definition translate_text ::
  "string \<Rightarrow> string \<Rightarrow> string \<Rightarrow> string option \<Rightarrow> world \<Rightarrow> string res" where
  "translate_text tx source_language_code target_language_code region_name w =
     (let w1 = w\<lparr>translate_calls :=
                  translate_calls w @ [(tx, source_language_code, target_language_code)]\<rparr>
      in case translate_service w (length (translate_calls w)) tx source_language_code
                target_language_code of
           Inl msg \<Rightarrow> Raise (TranslationError (''Translation error: '' @ msg) None) w1
         | Inr translated \<Rightarrow> Return translated w1)"

subsection \<open>OutputGenerator (generate\_output.py)\<close>

definition store_text_file :: "string \<Rightarrow> string \<Rightarrow> string \<Rightarrow> world \<Rightarrow> unit res" where
  "store_text_file output_path file_name text_content w =
     (case open_append (output_path @ ''/'' @ file_name) w of
        Inl e \<Rightarrow> Raise (OutputGenerationError (''Error storing output: '' @ str_error e) None) w
      | Inr w1 \<Rightarrow>
          Return () (file_write (output_path @ ''/'' @ file_name) (text_content @ newline) w1))"

definition store_transcript :: "string \<Rightarrow> string \<Rightarrow> world \<Rightarrow> unit res" where
  "store_transcript output_path transcript_text w =
     store_text_file output_path ''transcript_full.txt'' transcript_text w"

definition store_translated_output :: "string \<Rightarrow> string \<Rightarrow> world \<Rightarrow> unit res" where
  "store_translated_output output_path translated_text w =
     store_text_file output_path ''translated_output_full.txt'' translated_text w"

subsection \<open>TranscriptHandler (process\_request.py)\<close>

text \<open>A transcript event holds results; a result holds alternatives and the partial flag.\<close>

record Alternative =
  transcript :: string

record Result =
  alternatives :: "Alternative list"
  is_partial :: bool

type_synonym TranscriptEvent = "Result list"

text \<open>The handler keeps the five configuration values, a sequence number and the store.\<close>

record TranscriptHandler = UserInput +
  sequence_number :: nat
  data_handler :: TranscriptDataHandler

definition lower :: "string \<Rightarrow> nat list" where
  \<comment> \<open>the code points of \<^verbatim>\<open>s.lower()\<close>\<close>
  "lower s =
     map (\<lambda>c. let n = (of_char c :: nat)
               in if (65 \<le> n \<and> n \<le> 90) \<or> (192 \<le> n \<and> n \<le> 214) \<or> (216 \<le> n \<and> n \<le> 222)
                  then n + 32 else n) s"

definition same_languages :: "('a TranscriptHandler_scheme) \<Rightarrow> bool" where
  "same_languages self \<longleftrightarrow>
     lower (source_language self) = lower (target_language self) \<or>
     (source_language self = ''en-US'' \<and> target_language self = ''en'')"

definition world_of :: "'a res \<Rightarrow> world" where
  "world_of r = (case r of Return u w \<Rightarrow> w | Raise e w \<Rightarrow> w)"

text \<open>
  The body of the loop over the alternatives, in two parts: the translated text is chosen,
  then the subtitle is written and, for a final result, the texts are stored in the output
  files. The store \<open>data_handler\<close> is not used anywhere in the handling of an event.
\<close>

definition emit_alternative ::
  "TranscriptHandler \<Rightarrow> bool \<Rightarrow> bool \<Rightarrow> bool \<Rightarrow> string \<Rightarrow> string \<Rightarrow> world \<Rightarrow> unit res" where
  "emit_alternative self store_transcript_text store_translated_text partial transcript_text
     translated_text w =
     (case subtitle_format self of
        None \<Rightarrow> Raise (AttributeError ''NoneType object has no attribute lower'') w
      | Some fmt \<Rightarrow>
          (case (if lower fmt = map of_char ''vtt''
                 then generate_vtt_subtitle ''./subtitle/realtime_subtitle'' translated_text partial w
                 else generate_srt_subtitle ''./subtitle/realtime_subtitle'' translated_text partial w)
           of Raise e w1 \<Rightarrow> Raise e w1
            | Return u w1 \<Rightarrow>
                if \<not> partial then
                  (case (if store_transcript_text then store_transcript ''./output'' transcript_text w1
                         else Return () w1)
                   of Raise e w2 \<Rightarrow> Raise e w2
                    | Return u w2 \<Rightarrow>
                        if store_translated_text
                        then store_translated_output ''./output'' translated_text w2
                        else Return () w2)
                else Return () w1))"

definition handle_alternative ::
  "TranscriptHandler \<Rightarrow> bool \<Rightarrow> bool \<Rightarrow> bool \<Rightarrow> bool \<Rightarrow> Alternative \<Rightarrow> world \<Rightarrow> unit res" where
  "handle_alternative self store_transcript_text store_translated_text same partial alt w =
     (let transcript_text = transcript alt
      in case (if same then Return transcript_text w
               else translate_text transcript_text (source_language self) (target_language self)
                      (region self) w)
         of Raise e w1 \<Rightarrow> Raise e w1
          | Return translated_text w1 \<Rightarrow>
              emit_alternative self store_transcript_text store_translated_text partial
                transcript_text translated_text w1)"

fun handle_alternatives ::
  "TranscriptHandler \<Rightarrow> bool \<Rightarrow> bool \<Rightarrow> bool \<Rightarrow> bool \<Rightarrow> Alternative list \<Rightarrow> world \<Rightarrow> unit res" where
  "handle_alternatives self st sl same partial [] w = Return () w"
| "handle_alternatives self st sl same partial (alt # alts) w =
     (case handle_alternative self st sl same partial alt w of
        Raise e w1 \<Rightarrow> Raise e w1
      | Return u w1 \<Rightarrow> handle_alternatives self st sl same partial alts w1)"

fun handle_results ::
  "TranscriptHandler \<Rightarrow> bool \<Rightarrow> bool \<Rightarrow> bool \<Rightarrow> Result list \<Rightarrow> world \<Rightarrow> unit res" where
  "handle_results self st sl same [] w = Return () w"
| "handle_results self st sl same (r # results) w =
     (case handle_alternatives self st sl same (is_partial r) (alternatives r) w of
        Raise e w1 \<Rightarrow> Raise e w1
      | Return u w1 \<Rightarrow> handle_results self st sl same results w1)"

definition handle_transcript_event :: "TranscriptHandler \<Rightarrow> TranscriptEvent \<Rightarrow> world \<Rightarrow> unit res" where
  "handle_transcript_event self transcript_event w =
     (case Translate_init w of
        Raise e w0 \<Rightarrow> Raise e w0
      | Return u w0 \<Rightarrow>
          let store_transcript_text =
                (output_format self = Some (OutputFormat_value TRANSCRIPT_TEXT) \<or>
                 output_format self = Some (OutputFormat_value BOTH_TEXT));
              store_translated_text =
                (output_format self = Some (OutputFormat_value TRANSLATED_TEXT) \<or>
                 output_format self = Some (OutputFormat_value BOTH_TEXT))
          in case handle_results self store_transcript_text store_translated_text
                    (same_languages self) transcript_event w0
             of Raise e w1 \<Rightarrow>
                  Raise (TranscriptionError (''transcript event error: '' @ str_error e) None) w1
              | Return u w1 \<Rightarrow> Return () w1)"

subsection \<open>basic\_transcribe and process\_request (process\_request.py)\<close>

text \<open>
  What the recognition service and the audio do in one run: creating the client or starting
  the stream may fail; otherwise events arrive and are handled one by one, and the run of the
  two tasks ends with an exception from the stream or the audio, or normally. The interleaving
  of the two tasks is not modelled.
\<close>

record session =
  client_error :: "string option"
  start_stream_error :: "string option"
  events :: "TranscriptEvent list"
  stream_error :: "error option"

fun handle_events :: "TranscriptHandler \<Rightarrow> TranscriptEvent list \<Rightarrow> world \<Rightarrow> unit res" where
  "handle_events self [] w = Return () w"
| "handle_events self (ev # evs) w =
     (case handle_transcript_event self ev w of
        Raise e w1 \<Rightarrow> Raise e w1
      | Return u w1 \<Rightarrow> handle_events self evs w1)"

definition gather :: "TranscriptHandler \<Rightarrow> session \<Rightarrow> world \<Rightarrow> unit res" where
  "gather self s w =
     (case handle_events self (events s) w of
        Raise e w1 \<Rightarrow> Raise e w1
      | Return u w1 \<Rightarrow> (case stream_error s of Some e \<Rightarrow> Raise e w1 | None \<Rightarrow> Return () w1))"

text \<open>
  The body of the \<^verbatim>\<open>try\<close> block. The argument \<open>data_handler_arg\<close> is \<^verbatim>\<open>None\<close> for an object
  that is not a \<^verbatim>\<open>TranscriptDataHandler\<close>. The value returned is the address of the list
  that \<^const>\<open>get_transcript_data\<close> makes.
\<close>

definition basic_transcribe_try ::
  "UserInput \<Rightarrow> TranscriptDataHandler option \<Rightarrow> session \<Rightarrow> world \<Rightarrow> nat res" where
  "basic_transcribe_try config data_handler_arg s w =
     (case client_error s of Some msg \<Rightarrow> Raise (ClientError msg) w | None \<Rightarrow>
      case start_stream_error s of Some msg \<Rightarrow> Raise (ClientError msg) w | None \<Rightarrow>
      case data_handler_arg of
        None \<Rightarrow>
          Raise (ValueError ''Invalid data_handler. Expected TranscriptDataHandler instance.'') w
      | Some dh \<Rightarrow>
          let handler = UserInput.extend config
                          (TranscriptHandler.fields 0 dh)
          in case gather handler s w of
               Raise e w1 \<Rightarrow> Raise e w1
             | Return u w1 \<Rightarrow>
                 let (a, h) = get_transcript_data dh (heap w1)
                 in Return a (w1\<lparr>heap := h\<rparr>))"

text \<open>
  \<^verbatim>\<open>basic_transcribe\<close>: the \<^verbatim>\<open>except\<close> branch builds a \<^verbatim>\<open>TranscriptionError\<close>, does not
  raise it, and returns \<^verbatim>\<open>None\<close>.
\<close>

definition basic_transcribe ::
  "UserInput \<Rightarrow> TranscriptDataHandler option \<Rightarrow> session \<Rightarrow> world \<Rightarrow> nat option res" where
  "basic_transcribe config data_handler_arg s w =
     (case basic_transcribe_try config data_handler_arg s w of
        Return a w1 \<Rightarrow> Return (Some a) w1
      | Raise e w1 \<Rightarrow> Return None w1)"

definition process_request :: "UserInput \<Rightarrow> session \<Rightarrow> world \<Rightarrow> nat option res" where
  "process_request user_input s w =
     (let (dh, h) = TranscriptDataHandler_init (heap w)
      in basic_transcribe user_input (Some dh) s (w\<lparr>heap := h\<rparr>))"

subsection \<open>Example inputs\<close>

text \<open>
  A handler with a store of two empty logs, an environment whose translation service puts
  its input in angle brackets, an event with one final result, and two failing sessions.
\<close>

definition example_store :: TranscriptDataHandler where
  "example_store = \<lparr>transcript_data = 0, translated_data = 1\<rparr>"

definition example_handler :: "string \<Rightarrow> string \<Rightarrow> string \<Rightarrow> string \<Rightarrow> TranscriptHandler" where
  "example_handler src tgt fmt out =
     \<lparr>source_language = src, target_language = tgt, subtitle_format = Some fmt,
      region = Some ''us-east-1'', output_format = Some out, sequence_number = 0,
      data_handler = example_store\<rparr>"

definition example_world :: world where
  "example_world = (initial_world (\<lambda>i. 0) (\<lambda>i t s d. Inr (''<'' @ t @ ''>'')))\<lparr>heap := [[], []]\<rparr>"

definition final_hi :: TranscriptEvent where
  "final_hi = [\<lparr>alternatives = [\<lparr>transcript = ''Hi''\<rparr>], is_partial = False\<rparr>]"

definition example_config :: UserInput where
  "example_config =
     \<lparr>source_language = ''en-US'', target_language = ''en'', subtitle_format = Some ''vtt'',
      region = Some ''us-east-1'', output_format = Some ''both_text''\<rparr>"

definition failing_start :: session where
  "failing_start =
     \<lparr>client_error = None, start_stream_error = Some ''connection refused'', events = [],
      stream_error = None\<rparr>"

definition failing_stream :: session where
  "failing_stream =
     \<lparr>client_error = None, start_stream_error = None, events = [final_hi],
      stream_error = Some (ClientError ''connection lost'')\<rparr>"

section \<open>Properties\<close>

subsection \<open>The store\<close>

lemma handler_ok_init: "handler_ok (fst (TranscriptDataHandler_init h)) (snd (TranscriptDataHandler_init h))"
  by (simp add: handler_ok_def TranscriptDataHandler_init_def)

text \<open>
  C10. \<^const>\<open>get_transcript_data\<close> and \<^const>\<open>get_translated_data\<close> return a new list object
  holding the stored log: whatever is later written into the returned object, both logs of the
  handler keep their contents, and the reading itself leaves every existing object as it was.
  \<^const>\<open>store_transcript_data\<close> and \<^const>\<open>store_translated_data\<close> append exactly one
  (text, is\_partial) pair to their own log, keeping the entries stored before and the other log.
\<close>

theorem store_snapshot_frame:
  assumes "handler_ok self h"
  shows "(case get_transcript_data self h of (a, h') \<Rightarrow>
            h' ! a = h ! transcript_data self \<and> take (length h) h' = h \<and> handler_ok self h' \<and>
            (\<forall>ys. h'[a := ys] ! transcript_data self = h ! transcript_data self \<and>
                  h'[a := ys] ! translated_data self = h ! translated_data self)) \<and>
         (case get_translated_data self h of (a, h') \<Rightarrow>
            h' ! a = h ! translated_data self \<and> take (length h) h' = h \<and> handler_ok self h' \<and>
            (\<forall>ys. h'[a := ys] ! transcript_data self = h ! transcript_data self \<and>
                  h'[a := ys] ! translated_data self = h ! translated_data self)) \<and>
         (let h' = store_transcript_data self t p h in
            h' ! transcript_data self = h ! transcript_data self @ [(t, p)] \<and>
            h' ! translated_data self = h ! translated_data self \<and>
            h' = h[transcript_data self := h' ! transcript_data self] \<and> handler_ok self h') \<and>
         (let h' = store_translated_data self t p h in
            h' ! translated_data self = h ! translated_data self @ [(t, p)] \<and>
            h' ! transcript_data self = h ! transcript_data self \<and>
            h' = h[translated_data self := h' ! translated_data self] \<and> handler_ok self h')"
  using assms
  by (auto simp: handler_ok_def get_transcript_data_def get_translated_data_def
        store_transcript_data_def store_translated_data_def nth_append Let_def)

theorem store_snapshot_frame_witness:
  "handler_ok \<lparr>transcript_data = 0, translated_data = 1\<rparr> [[(''Hi'', False)], []] \<and>
   (case get_transcript_data \<lparr>transcript_data = 0, translated_data = 1\<rparr> [[(''Hi'', False)], []] of
      (a, h') \<Rightarrow> a = 2 \<and> h' ! a = [(''Hi'', False)] \<and>
        h'[a := []] ! transcript_data \<lparr>transcript_data = 0, translated_data = 1\<rparr> = [(''Hi'', False)]) \<and>
   store_translated_data \<lparr>transcript_data = 0, translated_data = 1\<rparr> ''Hola'' False [[(''Hi'', False)], []]
     = [[(''Hi'', False)], [(''Hola'', False)]]"
  using store_snapshot_frame [of "\<lparr>transcript_data = 0, translated_data = 1\<rparr>" "[[(''Hi'', False)], []]" "''Hola''" False]
  by (simp add: handler_ok_def get_transcript_data_def store_translated_data_def)

subsection \<open>The cue timing estimator\<close>

lemma round_half_even_div_exact: "b \<noteq> 0 \<Longrightarrow> round_half_even_div (k * b) b = k"
  by (simp add: round_half_even_div_def)

lemma re_split_from_length: "length (re_split_from cur text) = Suc (length (filter sentence_char text))"
  by (induction "text" arbitrary: cur) simp_all

lemma findall_word_from_concat:
  "concat (findall_word_from cur text) = cur @ filter word_char text"
  by (induction "text" arbitrary: cur) simp_all

lemma additional_microseconds_150:
  "additional_microseconds text 150 =
     400000 * int (length (findall_word text))
     + 1200000 * int (length (filter punctuation_char text))
     + 3000000 * int (Suc (length (filter sentence_char text)))"
proof -
  define k where "k = 400000 * int (length (findall_word text))
     + 1200000 * int (length (filter punctuation_char text))
     + 3000000 * int (Suc (length (filter sentence_char text)))"
  have "additional_microseconds text 150 = round_half_even_div (k * 150) 150"
    unfolding k_def
    by (simp add: additional_microseconds_def findall_punctuation_def re_split_sentence_def
        re_split_from_length algebra_simps)
  also have "\<dots> = k"
    by (rule round_half_even_div_exact) simp
  finally show ?thesis
    unfolding k_def .
qed

lemma pad_decimal_length: "length (pad_decimal w n) = w"
  by (induction w arbitrary: n) simp_all

lemma strftime_length: "length (strftime dt) = 15"
  by (simp add: strftime_def Let_def pad_decimal_length)

lemma dig_cases: "k < 10 \<Longrightarrow> k = 0 \<or> k = 1 \<or> k = 2 \<or> k = 3 \<or> k = 4 \<or> k = 5 \<or> k = 6 \<or> k = 7 \<or> k = 8 \<or> k = (9::nat)"
  by arith

lemma digit_char_is_digit: "k < 10 \<Longrightarrow> is_digit (digit_char k)"
  using dig_cases [of k] by (auto simp: is_digit_def digit_char_def)

lemma digit_char_value: "k < 10 \<Longrightarrow> (of_char (digit_char k) :: nat) = 48 + k"
  using dig_cases [of k] by (auto simp: digit_char_def)

lemma not_digit_sep: "\<not> is_digit CHR '':''" "\<not> is_digit CHR ''.''"
  by (simp_all add: is_digit_def)

lemma pad_decimal_numeral:
  "pad_decimal (numeral k) n = pad_decimal (pred_numeral k) (n div 10) @ [digit_char (n mod 10)]"
  by (simp only: numeral_eq_Suc [of k] pad_decimal.simps)

lemma pad_decimal_1: "pad_decimal 1 n = [digit_char (n mod 10)]"
  by simp

lemma pad_decimal_2: "pad_decimal 2 n = [digit_char (n div 10 mod 10), digit_char (n mod 10)]"
  by (simp add: pad_decimal_numeral)

lemma div_10_chain:
  "(n::nat) div 10 div 10 div 10 = n div 1000"
  "(n::nat) div 10 div 10 div 10 div 10 = n div 10000"
  "(n::nat) div 10 div 10 div 10 div 10 div 10 = n div 100000"
  by (simp_all add: div_mult2_eq [symmetric])

lemma pad_decimal_6_take3: "take 3 (pad_decimal 6 n) = pad_decimal 3 (n div 1000)"
  by (simp add: pad_decimal_numeral div_10_chain(1))

lemma pad_decimal_3: "pad_decimal 3 n = [digit_char (n div 100 mod 10), digit_char (n div 10 mod 10), digit_char (n mod 10)]"
  by (simp add: pad_decimal_numeral div_mult2_eq [symmetric])

lemma field2: "a < 10 \<Longrightarrow> b < 10 \<Longrightarrow> \<not> is_digit c \<Longrightarrow>
  field 2 maxv (digit_char a # digit_char b # c # r) =
    (if maxv < 10 * a + b then None else Some (10 * a + b, c # r))"
  by (simp add: field_def digits_value_def digit_char_is_digit digit_char_value Let_def)

lemma replicate_3: "replicate 3 x = [x, x, x]"
  by (simp add: numeral_3_eq_3)

lemma fraction3:
  assumes "g < 10" "i < 10" "j < 10"
  shows "takeWhile is_digit (take 6 [digit_char g, digit_char i, digit_char j]) = [digit_char g, digit_char i, digit_char j]"
    and "digits_value ([digit_char g, digit_char i, digit_char j] @ replicate (6 - 3) CHR ''0'') = (100 * g + 10 * i + j) * 1000"
  using assms
  by (simp_all add: digits_value_def digit_char_is_digit digit_char_value replicate_3)

lemma strptime_fields_rendered:
  assumes "a < 10" "b < 10" "c < 10" "d < 10" "e < 10" "f < 10" "g < 10" "i < 10" "j < 10"
    and "10 * a + b \<le> 23" "10 * c + d \<le> 59" "10 * e + f \<le> 59"
  shows "strptime_fields [digit_char a, digit_char b, CHR '':'', digit_char c, digit_char d, CHR '':'',
           digit_char e, digit_char f, CHR ''.'', digit_char g, digit_char i, digit_char j]
        = Some (10 * a + b, 10 * c + d, 10 * e + f, [digit_char g, digit_char i, digit_char j], [])"
  using assms
  by (simp add: strptime_fields_def field2 not_digit_sep literal_def digit_char_is_digit)

lemma strptime_rendered:
  assumes "a < 10" "b < 10" "c < 10" "d < 10" "e < 10" "f < 10" "g < 10" "i < 10" "j < 10"
    and "10 * a + b \<le> 23" "10 * c + d \<le> 59" "10 * e + f \<le> 59"
  shows "strptime [digit_char a, digit_char b, CHR '':'', digit_char c, digit_char d, CHR '':'',
           digit_char e, digit_char f, CHR ''.'', digit_char g, digit_char i, digit_char j]
         = Inr ((((10 * a + b) * 60 + (10 * c + d)) * 60 + (10 * e + f)) * 1000000
                + (100 * g + 10 * i + j) * 1000)"
proof -
  have len: "6 - length [digit_char g, digit_char i, digit_char j] = 6 - 3"
    by simp
  show ?thesis
    unfolding strptime_def strptime_fields_rendered [OF assms]
    using assms(12)
    by (simp only: len fraction3(2) [OF assms(7-9)] option.case prod.case) simp
qed

lemma time_of_day_less: "time_of_day dt < 86400000000"
  by (simp add: time_of_day_def nat_less_iff)

lemma two_digit_value: "n < 100 \<Longrightarrow> 10 * (n div 10 mod 10) + n mod 10 = (n::nat)"
  by simp

lemma three_digit_value:
  assumes "n < 1000"
  shows "100 * (n div 100 mod 10) + 10 * (n div 10 mod 10) + n mod 10 = (n::nat)"
proof -
  have a: "n mod 100 = 10 * (n div 10 mod 10) + n mod 10"
    using mod_mult2_eq [of n 10 10] by simp
  have "n div 100 < 10"
    using assms by (simp add: less_mult_imp_div_less)
  then have b: "n div 100 mod 10 = n div 100"
    by simp
  have "100 * (n div 100) + n mod 100 = n"
    by simp
  then show ?thesis
    unfolding b using a by simp
qed

lemma take_12_strftime:
  "take 12 (strftime dt) =
     (let t = time_of_day dt in
      pad_decimal 2 (t div 3600000000) @ '':'' @ pad_decimal 2 (t div 60000000 mod 60) @ '':'' @
      pad_decimal 2 (t div 1000000 mod 60) @ ''.'' @ pad_decimal 3 (t mod 1000000 div 1000))"
  by (simp add: strftime_def Let_def pad_decimal_length pad_decimal_6_take3)

lemma hms_recompose: "(T div 60 div 60 * 60 + T div 60 mod 60) * 60 + T mod 60 = (T::nat)"
  by simp

lemma ms_recompose:
  "(n::nat) div 1000000 * 1000000 + n mod 1000000 div 1000 * 1000 = n div 1000 * 1000"
proof -
  define q where "q = n div 1000"
  have a: "n div 1000000 = q div 1000"
    unfolding q_def by (simp add: div_mult2_eq [symmetric])
  have "n mod (1000 * 1000) = 1000 * (n div 1000 mod 1000) + n mod 1000"
    by (rule mod_mult2_eq)
  then have b: "n mod 1000000 div 1000 = q mod 1000"
    unfolding q_def by simp
  have c: "x * 1000000 + y * 1000 = (x * 1000 + y) * 1000" for x y :: nat
    by simp
  have "q div 1000 * 1000000 + q mod 1000 * 1000 = (q div 1000 * 1000 + q mod 1000) * 1000"
    by (rule c)
  also have "\<dots> = q * 1000"
    by simp
  finally show ?thesis
    unfolding a b q_def .
qed

lemma strptime_strftime:
  "strptime (take 12 (strftime dt)) = Inr (time_of_day dt div 1000 * 1000)"
proof -
  define t where "t = time_of_day dt"
  define T where "T = t div 1000000"
  define h where "h = T div 60 div 60"
  define m where "m = T div 60 mod 60"
  define s where "s = T mod 60"
  define ms where "ms = t mod 1000000 div 1000"
  have t: "t < 86400 * 1000000"
    unfolding t_def using time_of_day_less [of dt] by simp
  have T: "T < 24 * 60 * 60"
    unfolding T_def using t by (simp add: less_mult_imp_div_less)
  have "T div 60 < 24 * 60"
    using T by (simp add: less_mult_imp_div_less)
  then have "h < 24"
    unfolding h_def by (simp add: less_mult_imp_div_less)
  then have h: "h \<le> 23"
    by simp
  have m: "m \<le> 59" and s: "s \<le> 59"
    unfolding m_def s_def by (simp_all add: less_Suc_eq_le [symmetric])
  have "t mod 1000000 < 1000 * 1000"
    by simp
  then have ms: "ms < 1000"
    unfolding ms_def by (simp add: less_mult_imp_div_less)
  have hd: "t div 3600000000 = h" and md: "t div 60000000 mod 60 = m"
    and sd: "t div 1000000 mod 60 = s"
    unfolding h_def m_def s_def T_def by (simp_all add: div_mult2_eq [symmetric])
  have str: "take 12 (strftime dt) =
      [digit_char (h div 10 mod 10), digit_char (h mod 10), CHR '':'',
       digit_char (m div 10 mod 10), digit_char (m mod 10), CHR '':'',
       digit_char (s div 10 mod 10), digit_char (s mod 10), CHR ''.'',
       digit_char (ms div 100 mod 10), digit_char (ms div 10 mod 10), digit_char (ms mod 10)]"
    unfolding take_12_strftime Let_def t_def [symmetric] hd md sd ms_def [symmetric]
    by (simp add: pad_decimal_2 pad_decimal_3)
  have "strptime (take 12 (strftime dt)) =
      Inr ((((10 * (h div 10 mod 10) + h mod 10) * 60 + (10 * (m div 10 mod 10) + m mod 10)) * 60
             + (10 * (s div 10 mod 10) + s mod 10)) * 1000000
           + (100 * (ms div 100 mod 10) + 10 * (ms div 10 mod 10) + ms mod 10) * 1000)"
    unfolding str
    by (rule strptime_rendered) (use h m s in simp_all)
  also have "\<dots> = Inr (((h * 60 + m) * 60 + s) * 1000000 + ms * 1000)"
    using h m s ms by (simp only: two_digit_value three_digit_value)
  also have "((h * 60 + m) * 60 + s) = T"
    unfolding h_def m_def s_def by (rule hms_recompose)
  also have "T * 1000000 + ms * 1000 = t div 1000 * 1000"
    unfolding T_def ms_def by (rule ms_recompose)
  finally show ?thesis
    unfolding t_def .
qed

lemma calculate_end_time_150:
  assumes "strptime st = Inr t"
  shows "calculate_end_time (Some st) tx 150 =
           Inr (Some (take 12 (strftime (int t + additional_microseconds tx 150)) @ ''Z''))"
  using assms by (simp add: calculate_end_time_def Let_def strftime_length)

lemmas strptime_eval = strptime_def strptime_fields_def field_def literal_def digits_value_def
  is_digit_def Let_def replicate_3

lemmas strftime_eval = strftime_def time_of_day_def pad_decimal_numeral digit_char_def Let_def

lemmas count_eval = additional_microseconds_150 spec_additional_microseconds_def findall_word_def
  findall_punctuation_def re_split_sentence_def word_char_def isspace_def punctuation_char_def
  sentence_char_def

lemma strptime_ten_oclock: "strptime ''10:00:00.000'' = Inr 36000000000"
  by (simp add: strptime_eval)

lemma strftime_ten_oclock_8s: "take 12 (strftime 36008000000) = ''10:00:08.000''"
  by (simp add: strftime_eval)

lemma additional_hello_world: "additional_microseconds ''Hello world.'' 150 = 8000000"
  by (simp add: count_eval)

text \<open>
  C3, as amended. With 150 words per minute the duration added to the start is
  0.4 s for each word, 1.2 s for each of the characters \<^verbatim>\<open>. , ? !\<close> and 3 s for each
  sentence, where a word is a maximal run of word characters (letters, digits, underscore)
  as \<^verbatim>\<open>\w+\<close> matches them, not a whitespace-delimited token, and the number of sentences
  is one more than the number of the characters \<^verbatim>\<open>. ! ?\<close>, so at least 1. The result is
  the time of day of start plus duration, cut to milliseconds, followed by \<^verbatim>\<open>Z\<close>. For
  \<^verbatim>\<open>Hello world.\<close> the duration is 8 s.
\<close>

theorem calculate_end_time_adds_duration:
  assumes "strptime st = Inr t"
  shows "additional_microseconds tx 150 =
           400000 * int (length (findall_word tx))
           + 1200000 * int (length (filter punctuation_char tx))
           + 3000000 * int (Suc (length (filter sentence_char tx))) \<and>
         calculate_end_time (Some st) tx 150 =
           Inr (Some (take 12 (strftime (int t + additional_microseconds tx 150)) @ ''Z'')) \<and>
         additional_microseconds ''Hello world.'' 150 = 8000000"
proof -
  have "additional_microseconds ''Hello world.'' 150 = 8000000"
    by code_simp
  then show ?thesis
    using additional_microseconds_150 [of tx] calculate_end_time_150 [OF assms, of tx]
    by simp
qed

theorem calculate_end_time_adds_duration_witness:
  "strptime ''10:00:00.000'' = Inr 36000000000 \<and>
   additional_microseconds ''Hello world.'' 150 = 8000000 \<and>
   calculate_end_time (Some ''10:00:00.000'') ''Hello world.'' 150 = Inr (Some ''10:00:08.000Z'')"
proof -
  note th = calculate_end_time_adds_duration [OF strptime_ten_oclock, of "''Hello world.''"]
  have a: "additional_microseconds ''Hello world.'' 150 = 8000000"
    using th by (rule conjunct2 [THEN conjunct2])
  have "calculate_end_time (Some ''10:00:00.000'') ''Hello world.'' 150 =
          Inr (Some (take 12 (strftime (int 36000000000 + additional_microseconds ''Hello world.'' 150)) @ ''Z''))"
    using th by (rule conjunct2 [THEN conjunct1])
  then have "calculate_end_time (Some ''10:00:00.000'') ''Hello world.'' 150 = Inr (Some ''10:00:08.000Z'')"
    unfolding a by (simp add: strftime_ten_oclock_8s)
  then show ?thesis
    using strptime_ten_oclock a by simp
qed

text \<open>
  The claim as stated counts whitespace-delimited tokens. The text \<^verbatim>\<open>a-b\<close> is one such
  token but two words for the code, so the code adds 3.8 s where the formula of the claim
  gives 3.4 s.
\<close>

theorem word_count_counterexample:
  "additional_microseconds ''a-b'' 150 \<noteq> spec_additional_microseconds ''a-b''"
  by (simp add: count_eval)



text \<open>
  C8, as amended. For every text and every start time that \<^const>\<open>strptime\<close> accepts the added
  duration is at least 3 seconds. The timestamp returned holds the time of day only, so it
  is strictly later than the start whenever start plus duration is still before midnight:
  read back by \<^const>\<open>strptime\<close> (without the final \<^verbatim>\<open>Z\<close>), it gives a later time than the
  start did.
\<close>

theorem end_time_after_start:
  assumes "strptime st = Inr t"
    and "int t + additional_microseconds tx 150 < 86400000000"
  shows "3000000 \<le> additional_microseconds tx 150 \<and>
         calculate_end_time (Some st) tx 150 =
           Inr (Some (take 12 (strftime (int t + additional_microseconds tx 150)) @ ''Z'')) \<and>
         strptime (take 12 (strftime (int t + additional_microseconds tx 150))) =
           Inr (nat (int t + additional_microseconds tx 150) div 1000 * 1000) \<and>
         t < nat (int t + additional_microseconds tx 150) div 1000 * 1000"
proof -
  define d where "d = additional_microseconds tx 150"
  have d: "3000000 \<le> d"
    unfolding d_def additional_microseconds_150 by simp
  define e where "e = nat (int t + d)"
  have e: "int t + d = int e" "t + 3000000 \<le> e"
    using d unfolding e_def by simp_all
  have tod: "time_of_day (int t + d) = e"
    using assms(2) e(1) unfolding d_def [symmetric] time_of_day_def by simp
  have "e div 1000 * 1000 + e mod 1000 = e"
    by simp
  moreover have "e mod 1000 < 1000"
    by simp
  ultimately have "t < e div 1000 * 1000"
    using e(2) by linarith
  then show ?thesis
    using d calculate_end_time_150 [OF assms(1), of tx] strptime_strftime [of "int t + d"]
    unfolding d_def [symmetric] tod e_def by simp
qed

lemma strptime_ten_oclock_8s: "strptime ''10:00:08.000'' = Inr 36008000000"
  by (simp add: strptime_eval)

theorem end_time_after_start_witness:
  "strptime ''10:00:00.000'' = Inr 36000000000 \<and>
   int 36000000000 + additional_microseconds ''Hello world.'' 150 < 86400000000 \<and>
   calculate_end_time (Some ''10:00:00.000'') ''Hello world.'' 150 = Inr (Some ''10:00:08.000Z'') \<and>
   strptime ''10:00:08.000'' = Inr 36008000000 \<and> (36000000000::nat) < 36008000000"
proof -
  have q: "int 36000000000 + additional_microseconds ''Hello world.'' 150 < 86400000000"
    unfolding additional_hello_world by simp
  note th = end_time_after_start [OF strptime_ten_oclock q]
  have "calculate_end_time (Some ''10:00:00.000'') ''Hello world.'' 150 =
          Inr (Some (take 12 (strftime (int 36000000000 + additional_microseconds ''Hello world.'' 150)) @ ''Z''))"
    using th by (rule conjunct2 [THEN conjunct1])
  then have "calculate_end_time (Some ''10:00:00.000'') ''Hello world.'' 150 = Inr (Some ''10:00:08.000Z'')"
    unfolding additional_hello_world by (simp add: strftime_ten_oclock_8s)
  then show ?thesis
    using strptime_ten_oclock q strptime_ten_oclock_8s by simp
qed

lemma strptime_before_midnight: "strptime ''23:59:58.000'' = Inr 86398000000"
  by (simp add: strptime_eval)

lemma strptime_after_midnight: "strptime ''00:00:01.000'' = Inr 1000000"
  by (simp add: strptime_eval)

lemma strftime_after_midnight: "take 12 (strftime 86401000000) = ''00:00:01.000''"
  by (simp add: strftime_eval)

lemma additional_empty: "additional_microseconds [] 150 = 3000000"
  by (simp add: count_eval)

text \<open>
  The claim as stated holds for every start. A cue that starts at 23:59:58.000 with the empty
  text ends three seconds later, and the timestamp returned for the end is \<^verbatim>\<open>00:00:01.000Z\<close>,
  which is not later than the start.
\<close>

theorem end_time_midnight_counterexample:
  "calculate_end_time (Some ''23:59:58.000'') [] 150 = Inr (Some ''00:00:01.000Z'') \<and>
   strptime ''23:59:58.000'' = Inr 86398000000 \<and> strptime ''00:00:01.000'' = Inr 1000000 \<and>
   \<not> (86398000000::nat) < 1000000"
proof -
  have "calculate_end_time (Some ''23:59:58.000'') [] 150 =
          Inr (Some (take 12 (strftime (int 86398000000 + additional_microseconds [] 150)) @ ''Z''))"
    by (rule calculate_end_time_150 [OF strptime_before_midnight])
  then have "calculate_end_time (Some ''23:59:58.000'') [] 150 = Inr (Some ''00:00:01.000Z'')"
    unfolding additional_empty by (simp add: strftime_after_midnight)
  then show ?thesis
    using strptime_before_midnight strptime_after_midnight by simp
qed

subsection \<open>Configuration\<close>

lemmas config_eval = from_input_data_def subscript_def member_value_def get_source_language_enum_def
  get_target_language_enum_def get_language_enum_def SourceLanguage_def TargetLanguage_def
  SubtitleFormat_call_def OutputFormat_call_def

lemma from_input_data_unknown_language:
  "from_input_data [''source_language'' \<mapsto> ''xx'', ''target_language'' \<mapsto> ''es'', ''subtitle_format'' \<mapsto> ''srt'']
     = Inl (AttributeError ''NoneType object has no attribute value'')"
  by (simp add: config_eval)

lemma from_input_data_invalid_formats:
  "SubtitleFormat_call sf = Inl e \<Longrightarrow> input_data ''subtitle_format'' = Some sf \<Longrightarrow>
   from_input_data input_data \<noteq> Inr u"
  by (auto simp: from_input_data_def subscript_def split: sum.splits option.splits)

text \<open>
  C9. The claim asks that invalid configuration values fail when the configuration is built and
  that valid codes map to their canonical values. The lookup of \<^const>\<open>get_language_enum\<close>
  tests whether the code occurs inside a member's value, so the invalid codes \<^verbatim>\<open>e\<close> and
  \<^verbatim>\<open>a\<close>, and the empty string, are accepted, and the valid code \<^verbatim>\<open>fa\<close> is mapped to
  \<^verbatim>\<open>fa-AF\<close>, the member listed before it. The command line of core.py does not validate
  at all. The theorem evaluates the code at these inputs.
\<close>

theorem from_input_data_accepts_invalid_codes:
  "from_input_data [''source_language'' \<mapsto> ''e'', ''target_language'' \<mapsto> ''a'', ''subtitle_format'' \<mapsto> ''srt'']
     = Inr \<lparr>source_language = ''en-US'', target_language = ''af'', subtitle_format = Some ''srt'',
            region = Some ''us-east-1'', output_format = Some ''none''\<rparr> \<and>
   member_value (get_target_language_enum ''fa'') = Inr ''fa-AF'' \<and>
   member_value (get_source_language_enum []) = Inr ''en-US'' \<and>
   main_user_input ''xx'' ''yy'' (Some ''bogus'') None (Some ''nothing'')
     = \<lparr>source_language = ''xx'', target_language = ''yy'', subtitle_format = Some ''bogus'',
        region = None, output_format = Some ''nothing''\<rparr>"
  by (simp add: config_eval main_user_input_def)

subsection \<open>The subtitle writers\<close>

lemma take_8_strftime:
  "take 8 (strftime dt) =
     (let t = time_of_day dt in
      pad_decimal 2 (t div 3600000000) @ '':'' @ pad_decimal 2 (t div 60000000 mod 60) @ '':'' @
      pad_decimal 2 (t div 1000000 mod 60))"
  by (simp add: strftime_def Let_def pad_decimal_length)

lemma strptime_vtt_start:
  "\<exists>t. strptime (take 8 (strftime dt) @ ''.000'') = Inr t"
proof -
  define t where "t = time_of_day dt"
  define T where "T = t div 1000000"
  define h where "h = T div 60 div 60"
  define m where "m = T div 60 mod 60"
  define s where "s = T mod 60"
  have t: "t < 86400 * 1000000"
    unfolding t_def using time_of_day_less [of dt] by simp
  have T: "T < 24 * 60 * 60"
    unfolding T_def using t by (simp add: less_mult_imp_div_less)
  have "T div 60 < 24 * 60"
    using T by (simp add: less_mult_imp_div_less)
  then have "h < 24"
    unfolding h_def by (simp add: less_mult_imp_div_less)
  then have h: "h \<le> 23"
    by simp
  have m: "m \<le> 59" and s: "s \<le> 59"
    unfolding m_def s_def by (simp_all add: less_Suc_eq_le [symmetric])
  have hd: "t div 3600000000 = h" and md: "t div 60000000 mod 60 = m"
    and sd: "t div 1000000 mod 60 = s"
    unfolding h_def m_def s_def T_def by (simp_all add: div_mult2_eq [symmetric])
  have z: "CHR ''0'' = digit_char 0"
    by (simp add: digit_char_def)
  have str: "take 8 (strftime dt) @ ''.000'' =
      [digit_char (h div 10 mod 10), digit_char (h mod 10), CHR '':'',
       digit_char (m div 10 mod 10), digit_char (m mod 10), CHR '':'',
       digit_char (s div 10 mod 10), digit_char (s mod 10), CHR ''.'',
       digit_char 0, digit_char 0, digit_char 0]"
    unfolding take_8_strftime Let_def t_def [symmetric] hd md sd z
    by (simp add: pad_decimal_2)
  show ?thesis
    unfolding str
    by (rule exI, rule strptime_rendered) (use h m s in simp_all)
qed

lemma calculate_end_time_vtt_start:
  "\<exists>e. calculate_end_time (Some (take 8 (strftime dt) @ ''.000'')) tx 150 = Inr (Some e)"
  using strptime_vtt_start [of dt] by (auto simp: calculate_end_time_def Let_def)

lemma generate_vtt_subtitle_appends:
  assumes "open_error w (sp @ ''.vtt'') = None"
  shows "generate_vtt_subtitle sp tx pf w =
           Return () (w\<lparr>clock_reads := Suc (clock_reads w),
                        files := (files w)(sp @ ''.vtt'' \<mapsto>
                          vtt_content (files w (sp @ ''.vtt'')) @ vtt_cue (clock w (clock_reads w)) tx)\<rparr>)"
proof -
  obtain e where e: "calculate_end_time (Some (take 8 (strftime (int (clock w (clock_reads w)))) @ ''.000'')) tx 150 = Inr (Some e)"
    using calculate_end_time_vtt_start by blast
  show ?thesis
    using assms e
    by (auto simp: generate_vtt_subtitle_def now_def Let_def file_empty_def open_append_def
        file_write_def vtt_content_def vtt_cue_def split: option.splits)
qed

lemma vtt_content_nonempty: "vtt_content old @ vtt_cue t tx \<noteq> []"
  by (simp add: vtt_cue_def Let_def)

lemma vtt_content_idem: "c \<noteq> [] \<Longrightarrow> vtt_content (Some c) = c"
  by (simp add: vtt_content_def)

lemma strftime_midnight: "strftime 0 = ''00:00:00.000000''"
  by (simp add: strftime_eval)

lemma strptime_midnight: "strptime ''00:00:00.000'' = Inr 0"
  by (simp add: strptime_eval)

lemma strftime_3400: "take 12 (strftime 3400000) = ''00:00:03.400''"
  by (simp add: strftime_eval)

lemma end_time_10: "calculate_end_time (Some ''00:00:00.000'') ''10'' 150 = Inr (Some ''00:00:03.400Z'')"
  using calculate_end_time_150 [OF strptime_midnight, of "''10''"]
  by (simp add: count_eval strftime_3400)

lemma end_time_b: "calculate_end_time (Some ''00:00:00.000'') ''b'' 150 = Inr (Some ''00:00:03.400Z'')"
  using calculate_end_time_150 [OF strptime_midnight, of "''b''"]
  by (simp add: count_eval strftime_3400)

lemmas writer_eval = generate_srt_subtitle_def generate_vtt_subtitle_def now_def file_empty_def
  open_append_def file_write_def format_end_time_def get_next_cue_number_def readlines_def
  strip_def isdigit_def int_call_def is_digit_def isspace_def digits_value_def newline_def
  digit_char_def Let_def

text \<open>
  C7. In a sequence of calls of \<^const>\<open>generate_vtt_subtitle\<close> on one file that can be opened, the
  header line \<^verbatim>\<open>WEBVTT\<close> and a blank line are written exactly once, before the first cue, when
  the file was missing or empty at the first call, and never when it held something: the file
  ends up as its old content, or the header in place of an empty one, followed by the cues of
  the calls and nothing else.
\<close>

theorem vtt_header_written_once:
  assumes "open_error w (sp @ ''.vtt'') = None" and "calls \<noteq> []"
  shows "generate_vtt_subtitles sp calls w =
           Return () (w\<lparr>clock_reads := clock_reads w + length calls,
                        files := (files w)(sp @ ''.vtt'' \<mapsto>
                          vtt_content (files w (sp @ ''.vtt'')) @
                          vtt_cues (clock w) (clock_reads w) calls)\<rparr>)"
  using assms
proof (induction calls arbitrary: w)
  case Nil
  then show ?case by simp
next
  case (Cons call calls)
  obtain tx pf where call: "call = (tx, pf)"
    by (cases call)
  define w' where "w' = w\<lparr>clock_reads := Suc (clock_reads w),
                        files := (files w)(sp @ ''.vtt'' \<mapsto>
                          vtt_content (files w (sp @ ''.vtt'')) @ vtt_cue (clock w (clock_reads w)) tx)\<rparr>"
  have step: "generate_vtt_subtitle sp tx pf w = Return () w'"
    unfolding w'_def by (rule generate_vtt_subtitle_appends [OF Cons.prems(1)])
  have open': "open_error w' (sp @ ''.vtt'') = None"
    using Cons.prems(1) by (simp add: w'_def)
  show ?case
  proof (cases "calls = []")
    case True
    have "generate_vtt_subtitles sp (call # calls) w = Return () w'"
      using step by (simp add: call True)
    also have "w' = w\<lparr>clock_reads := clock_reads w + length (call # calls),
                        files := (files w)(sp @ ''.vtt'' \<mapsto>
                          vtt_content (files w (sp @ ''.vtt'')) @
                          vtt_cues (clock w) (clock_reads w) (call # calls))\<rparr>"
      by (simp add: w'_def call True)
    finally show ?thesis .
  next
    case False
    have "generate_vtt_subtitles sp (call # calls) w = generate_vtt_subtitles sp calls w'"
      using step by (simp add: call)
    also have "\<dots> = Return () (w'\<lparr>clock_reads := clock_reads w' + length calls,
                        files := (files w')(sp @ ''.vtt'' \<mapsto>
                          vtt_content (files w' (sp @ ''.vtt'')) @
                          vtt_cues (clock w') (clock_reads w') calls)\<rparr>)"
      by (rule Cons.IH [OF open' False])
    also have "w'\<lparr>clock_reads := clock_reads w' + length calls,
                        files := (files w')(sp @ ''.vtt'' \<mapsto>
                          vtt_content (files w' (sp @ ''.vtt'')) @
                          vtt_cues (clock w') (clock_reads w') calls)\<rparr> =
                   w\<lparr>clock_reads := clock_reads w + length (call # calls),
                        files := (files w)(sp @ ''.vtt'' \<mapsto>
                          vtt_content (files w (sp @ ''.vtt'')) @
                          vtt_cues (clock w) (clock_reads w) (call # calls))\<rparr>"
      by (simp add: w'_def call vtt_content_idem [OF vtt_content_nonempty])
    finally show ?thesis .
  qed
qed

lemma strftime_3400_hi: "calculate_end_time (Some ''00:00:00.000'') ''Hi'' 150 = Inr (Some ''00:00:03.400Z'')"
  using calculate_end_time_150 [OF strptime_midnight, of "''Hi''"]
  by (simp add: count_eval strftime_3400)

theorem vtt_header_written_once_witness:
  "open_error (initial_world (\<lambda>i. 0) (\<lambda>i t s d. Inr t)) (''sub'' @ ''.vtt'') = None \<and>
   [(''Hi'', True), (''Hi'', False)] \<noteq> [] \<and>
   (case generate_vtt_subtitles ''sub'' [(''Hi'', True), (''Hi'', False)]
           (initial_world (\<lambda>i. 0) (\<lambda>i t s d. Inr t)) of
      Return u w' \<Rightarrow> files w' ''sub.vtt'' | Raise e w' \<Rightarrow> None) =
   Some (''WEBVTT'' @ newline @ newline @
         ''00:00:00.000 --> 00:00:03.400Z'' @ newline @ ''Hi'' @ newline @
         ''00:00:00.000 --> 00:00:03.400Z'' @ newline @ ''Hi'' @ newline)"
proof -
  have o: "open_error (initial_world (\<lambda>i. 0) (\<lambda>i t s d. Inr t)) (''sub'' @ ''.vtt'') = None"
    by (simp add: initial_world_def)
  have n: "[(''Hi'', True), (''Hi'', False)] \<noteq> []"
    by simp
  show ?thesis
    using vtt_header_written_once [OF o n] o
    by (simp add: initial_world_def vtt_content_def vtt_cue_def strftime_midnight strftime_3400_hi
        format_end_time_def newline_def)
qed

text \<open>Cues whose texts are words are numbered 1, 2, 3, partial or not.\<close>

lemma srt_numbering_of_word_texts:
  "(case generate_srt_subtitles ''sub'' [(''b'', False), (''b'', True), (''b'', False)]
           (initial_world (\<lambda>i. 0) (\<lambda>i t s d. Inr t)) of
      Return u w' \<Rightarrow> files w' ''sub.srt'' | Raise e w' \<Rightarrow> None) =
   Some (''1'' @ newline @ ''00:00:00.000 --> 00:00:03.400Z'' @ newline @ ''b'' @ newline @ newline @
         ''2'' @ newline @ ''00:00:00.000 --> 00:00:03.400Z'' @ newline @ ''b'' @ newline @ newline @
         ''3'' @ newline @ ''00:00:00.000 --> 00:00:03.400Z'' @ newline @ ''b'' @ newline @ newline)"
  by (simp add: initial_world_def writer_eval strftime_midnight end_time_b)

text \<open>
  C6. The claim asks that the cue numbers written to a new SRT file run 1, 2, 3, ... The next
  number is taken from the last line of the file that consists of digits only, and a cue whose
  text is such a line, here the text \<^verbatim>\<open>10\<close>, is taken for a cue number: the cue after it
  gets the number 11, not 2. The theorem evaluates the code on these two cues.
\<close>

theorem srt_digit_text_breaks_numbering:
  "(case generate_srt_subtitles ''sub'' [(''10'', False), (''b'', False)] (initial_world (\<lambda>i. 0) (\<lambda>i t s d. Inr t)) of
      Return u w' \<Rightarrow> files w' ''sub.srt'' | Raise e w' \<Rightarrow> None) =
   Some (''1'' @ newline @ ''00:00:00.000 --> 00:00:03.400Z'' @ newline @ ''10'' @ newline @ newline @
         ''11'' @ newline @ ''00:00:00.000 --> 00:00:03.400Z'' @ newline @ ''b'' @ newline @ newline)"
  by (simp add: initial_world_def writer_eval strftime_midnight end_time_10 end_time_b)

subsection \<open>The event handler: what it leaves untouched\<close>

lemma world_of_simps [simp]: "world_of (Return u w) = w" "world_of (Raise e w) = w"
  by (simp_all add: world_of_def)

lemma generate_vtt_subtitle_frame:
  "heap (world_of (generate_vtt_subtitle sp tx pf w)) = heap w"
  "translate_calls (world_of (generate_vtt_subtitle sp tx pf w)) = translate_calls w"
  by (auto simp: generate_vtt_subtitle_def now_def Let_def open_append_def file_write_def
      split: sum.splits option.splits)

lemma generate_srt_subtitle_frame:
  "heap (world_of (generate_srt_subtitle sp tx pf w)) = heap w"
  "translate_calls (world_of (generate_srt_subtitle sp tx pf w)) = translate_calls w"
  by (auto simp: generate_srt_subtitle_def now_def Let_def open_append_def file_write_def
      split: sum.splits option.splits)

lemma store_text_file_frame:
  "heap (world_of (store_text_file p f tx w)) = heap w"
  "translate_calls (world_of (store_text_file p f tx w)) = translate_calls w"
  by (auto simp: store_text_file_def open_append_def file_write_def split: sum.splits option.splits)

lemma translate_text_frame:
  "heap (world_of (translate_text tx s t r w)) = heap w"
  by (auto simp: translate_text_def Let_def split: sum.splits)

lemma res_case_frame:
  assumes "\<pi> (world_of r) = \<pi> w"
    and "\<And>u w1. r = Return u w1 \<Longrightarrow> \<pi> (world_of (k u w1)) = \<pi> w1"
  shows "\<pi> (world_of (case r of Return u w1 \<Rightarrow> k u w1 | Raise e w1 \<Rightarrow> Raise e w1)) = \<pi> w"
  using assms by (cases r) auto

lemma store_step_frame:
  "heap (world_of (if c then store_transcript p tx w else Return () w)) = heap w"
  "translate_calls (world_of (if c then store_transcript p tx w else Return () w)) = translate_calls w"
  "heap (world_of (if c then store_translated_output p tx w else Return () w)) = heap w"
  "translate_calls (world_of (if c then store_translated_output p tx w else Return () w)) = translate_calls w"
  by (simp_all add: store_transcript_def store_translated_output_def store_text_file_frame)

lemma subtitle_step_frame:
  "heap (world_of (if c then generate_vtt_subtitle sp tx pf w else generate_srt_subtitle sp tx pf w)) = heap w"
  "translate_calls (world_of (if c then generate_vtt_subtitle sp tx pf w else generate_srt_subtitle sp tx pf w)) = translate_calls w"
  by (simp_all add: generate_vtt_subtitle_frame generate_srt_subtitle_frame)

lemma emit_alternative_heap:
  "heap (world_of (emit_alternative self st sl p tt tr w)) = heap w"
proof (cases "subtitle_format self")
  case None
  then show ?thesis by (simp add: emit_alternative_def)
next
  case (Some fmt)
  show ?thesis
    unfolding emit_alternative_def Some option.case
  proof (rule res_case_frame [where \<pi> = heap], rule subtitle_step_frame)
    fix u w1
    show "heap (world_of (if \<not> p
            then case if st then store_transcript ''./output'' tt w1 else Return () w1 of
                   Return u w2 \<Rightarrow> if sl then store_translated_output ''./output'' tr w2 else Return () w2
                 | Raise e w2 \<Rightarrow> Raise e w2
            else Return () w1)) = heap w1"
    proof (cases p)
      case True
      then show ?thesis by simp
    next
      case False
      then show ?thesis
        by (simp only: if_True not_False_eq_True)
           (rule res_case_frame [where \<pi> = heap], rule store_step_frame, rule store_step_frame)
    qed
  qed
qed

lemma emit_alternative_calls:
  "translate_calls (world_of (emit_alternative self st sl p tt tr w)) = translate_calls w"
proof (cases "subtitle_format self")
  case None
  then show ?thesis by (simp add: emit_alternative_def)
next
  case (Some fmt)
  show ?thesis
    unfolding emit_alternative_def Some option.case
  proof (rule res_case_frame [where \<pi> = translate_calls], rule subtitle_step_frame)
    fix u w1
    show "translate_calls (world_of (if \<not> p
            then case if st then store_transcript ''./output'' tt w1 else Return () w1 of
                   Return u w2 \<Rightarrow> if sl then store_translated_output ''./output'' tr w2 else Return () w2
                 | Raise e w2 \<Rightarrow> Raise e w2
            else Return () w1)) = translate_calls w1"
    proof (cases p)
      case True
      then show ?thesis by simp
    next
      case False
      then show ?thesis
        by (simp only: if_True not_False_eq_True)
           (rule res_case_frame [where \<pi> = translate_calls], rule store_step_frame, rule store_step_frame)
    qed
  qed
qed

lemmas emit_alternative_frame = emit_alternative_heap emit_alternative_calls

lemma handle_alternative_heap:
  "heap (world_of (handle_alternative self st sl same p alt w)) = heap w"
proof (cases same)
  case True
  then show ?thesis by (simp add: handle_alternative_def Let_def emit_alternative_frame)
next
  case False
  show ?thesis
  proof (cases "translate_text (transcript alt) (source_language self) (target_language self) (region self) w")
    case (Return tr w1)
    then show ?thesis
      using translate_text_frame [of "transcript alt" "source_language self" "target_language self" "region self" w]
      by (simp add: handle_alternative_def Let_def False emit_alternative_frame)
  next
    case (Raise e w1)
    then show ?thesis
      using translate_text_frame [of "transcript alt" "source_language self" "target_language self" "region self" w]
      by (simp add: handle_alternative_def Let_def False)
  qed
qed

lemma handle_alternative_calls:
  "translate_calls (world_of (handle_alternative self st sl True p alt w)) = translate_calls w"
  by (simp add: handle_alternative_def Let_def emit_alternative_frame)

lemma handle_alternatives_heap:
  "heap (world_of (handle_alternatives self st sl same p alts w)) = heap w"
proof (induction alts arbitrary: w)
  case Nil
  then show ?case by simp
next
  case (Cons alt alts)
  show ?case
    using handle_alternative_heap [of self st sl same p alt w] Cons.IH
    by (cases "handle_alternative self st sl same p alt w") simp_all
qed

lemma handle_alternatives_calls:
  "translate_calls (world_of (handle_alternatives self st sl True p alts w)) = translate_calls w"
proof (induction alts arbitrary: w)
  case Nil
  then show ?case by simp
next
  case (Cons alt alts)
  show ?case
    using handle_alternative_calls [of self st sl p alt w] Cons.IH
    by (cases "handle_alternative self st sl True p alt w") simp_all
qed

lemma handle_results_heap:
  "heap (world_of (handle_results self st sl same rs w)) = heap w"
proof (induction rs arbitrary: w)
  case Nil
  then show ?case by simp
next
  case (Cons r rs)
  show ?case
    using handle_alternatives_heap [of self st sl same "is_partial r" "alternatives r" w] Cons.IH
    by (cases "handle_alternatives self st sl same (is_partial r) (alternatives r) w") simp_all
qed

lemma handle_results_calls:
  "translate_calls (world_of (handle_results self st sl True rs w)) = translate_calls w"
proof (induction rs arbitrary: w)
  case Nil
  then show ?case by simp
next
  case (Cons r rs)
  show ?case
    using handle_alternatives_calls [of self st sl "is_partial r" "alternatives r" w] Cons.IH
    by (cases "handle_alternatives self st sl True (is_partial r) (alternatives r) w") simp_all
qed

lemma handle_transcript_event_heap:
  "heap (world_of (handle_transcript_event self ev w)) = heap w"
proof (cases "boto3_client_error w")
  case (Some msg)
  then show ?thesis by (simp add: handle_transcript_event_def Translate_init_def)
next
  case None
  define st where "st = (output_format self = Some (OutputFormat_value TRANSCRIPT_TEXT) \<or>
                 output_format self = Some (OutputFormat_value BOTH_TEXT))"
  define sl where "sl = (output_format self = Some (OutputFormat_value TRANSLATED_TEXT) \<or>
                 output_format self = Some (OutputFormat_value BOTH_TEXT))"
  show ?thesis
    using handle_results_heap [of self st sl "same_languages self" ev w] None
    unfolding st_def sl_def
    by (cases "handle_results self st sl (same_languages self) ev w")
       (simp_all add: handle_transcript_event_def Translate_init_def Let_def st_def sl_def)
qed

lemma handle_transcript_event_calls:
  assumes "same_languages self"
  shows "translate_calls (world_of (handle_transcript_event self ev w)) = translate_calls w"
proof (cases "boto3_client_error w")
  case (Some msg)
  then show ?thesis by (simp add: handle_transcript_event_def Translate_init_def)
next
  case None
  define st where "st = (output_format self = Some (OutputFormat_value TRANSCRIPT_TEXT) \<or>
                 output_format self = Some (OutputFormat_value BOTH_TEXT))"
  define sl where "sl = (output_format self = Some (OutputFormat_value TRANSLATED_TEXT) \<or>
                 output_format self = Some (OutputFormat_value BOTH_TEXT))"
  show ?thesis
    using handle_results_calls [of self st sl ev w] None assms
    unfolding st_def sl_def
    by (cases "handle_results self st sl True ev w")
       (simp_all add: handle_transcript_event_def Translate_init_def Let_def st_def sl_def)
qed

subsection \<open>The event handler and the session on examples\<close>

lemmas handler_eval = handle_transcript_event_def Translate_init_def handle_alternative_def
  emit_alternative_def same_languages_def lower_def translate_text_def store_transcript_def
  store_translated_output_def store_text_file_def example_handler_def example_world_def
  final_hi_def initial_world_def

lemma final_hi_outcome:
  "handle_transcript_event (example_handler ''en-US'' ''en'' ''vtt'' ''both_text'') final_hi example_world
   = Return ()
       (example_world\<lparr>clock_reads := 1,
          files := [''./subtitle/realtime_subtitle.vtt'' \<mapsto>
                      ''WEBVTT'' @ newline @ newline @ ''00:00:00.000 --> 00:00:03.400Z'' @ newline @
                      ''Hi'' @ newline,
                    ''./output/transcript_full.txt'' \<mapsto> ''Hi'' @ newline,
                    ''./output/translated_output_full.txt'' \<mapsto> ''Hi'' @ newline]\<rparr>)"
  by (simp add: handler_eval writer_eval strftime_midnight strftime_3400_hi)

lemma handler_of_config:
  "UserInput.extend example_config (TranscriptHandler.fields 0 example_store)
     = example_handler ''en-US'' ''en'' ''vtt'' ''both_text''"
  by (simp add: example_config_def example_handler_def UserInput.defs TranscriptHandler.defs)

lemma basic_transcribe_returns:
  "\<exists>x w'. basic_transcribe config dh s w = Return x w'"
  by (simp add: basic_transcribe_def split: res.splits)

lemma other_language_translates:
  "(let w' = world_of (handle_transcript_event
                         (example_handler ''en-US'' ''es'' ''vtt'' ''both_text'') final_hi example_world)
    in translate_calls w' = [(''Hi'', ''en-US'', ''es'')] \<and>
       files w' ''./output/transcript_full.txt'' = Some (''Hi'' @ newline) \<and>
       files w' ''./output/translated_output_full.txt'' = Some (''<Hi>'' @ newline))"
proof -
  have "calculate_end_time (Some ''00:00:00.000'') ''<Hi>'' 150 = Inr (Some ''00:00:03.400Z'')"
    using calculate_end_time_150 [OF strptime_midnight, of "''<Hi>''"]
    by (simp add: count_eval strftime_3400)
  then show ?thesis
    by (simp add: handler_eval writer_eval strftime_midnight)
qed

text \<open>
  C1. No handling of an event writes to the store: the lemma \<^verbatim>\<open>handle_transcript_event_heap\<close> above
  holds for partial and final results alike, so the half of the claim on partial results
  holds. The other half does not: the text of a final result is appended to the output files
  of the configured policy, and the two logs of the store stay empty. The theorem evaluates
  the code on one final result with the policy \<^verbatim>\<open>both_text\<close>.
\<close>

theorem final_result_not_in_store:
  "(let w' = world_of (handle_transcript_event
                         (example_handler ''en-US'' ''en'' ''vtt'' ''both_text'') final_hi example_world)
    in heap w' ! 0 = [] \<and> heap w' ! 1 = [] \<and>
       files w' ''./output/transcript_full.txt'' = Some (''Hi'' @ newline) \<and>
       files w' ''./output/translated_output_full.txt'' = Some (''Hi'' @ newline))"
  by (simp add: final_hi_outcome) (simp add: example_world_def initial_world_def)

text \<open>
  C5. When source and target language are the same up to case, or are \<^verbatim>\<open>en-US\<close> and
  \<^verbatim>\<open>en\<close>, the handling of an event sends no request to the translation service, and each
  alternative is written to the subtitle file and to the output files with its transcript as
  the translated text.
\<close>

theorem same_languages_skip_translation:
  assumes "lower (source_language self) = lower (target_language self) \<or>
           (source_language self = ''en-US'' \<and> target_language self = ''en'')"
  shows "translate_calls (world_of (handle_transcript_event self ev w)) = translate_calls w \<and>
         handle_alternative self st sl (same_languages self) p alt w =
           emit_alternative self st sl p (transcript alt) (transcript alt) w"
proof -
  have same: "same_languages self"
    using assms by (simp add: same_languages_def)
  then show ?thesis
    by (simp add: handle_transcript_event_calls handle_alternative_def Let_def)
qed

theorem same_languages_skip_translation_witness:
  "(lower (source_language (example_handler ''en-US'' ''en'' ''vtt'' ''both_text'')) =
      lower (target_language (example_handler ''en-US'' ''en'' ''vtt'' ''both_text'')) \<or>
    (source_language (example_handler ''en-US'' ''en'' ''vtt'' ''both_text'') = ''en-US'' \<and>
     target_language (example_handler ''en-US'' ''en'' ''vtt'' ''both_text'') = ''en'')) \<and>
   translate_calls (world_of (handle_transcript_event
      (example_handler ''en-US'' ''en'' ''vtt'' ''both_text'') final_hi example_world)) = [] \<and>
   files (world_of (handle_transcript_event
      (example_handler ''en-US'' ''en'' ''vtt'' ''both_text'') final_hi example_world))
      ''./output/translated_output_full.txt'' = Some (''Hi'' @ newline)"
proof -
  have a: "lower (source_language (example_handler ''en-US'' ''en'' ''vtt'' ''both_text'')) =
      lower (target_language (example_handler ''en-US'' ''en'' ''vtt'' ''both_text'')) \<or>
    (source_language (example_handler ''en-US'' ''en'' ''vtt'' ''both_text'') = ''en-US'' \<and>
     target_language (example_handler ''en-US'' ''en'' ''vtt'' ''both_text'') = ''en'')"
    by (simp add: example_handler_def)
  have c: "translate_calls example_world = []"
    by (simp add: example_world_def initial_world_def)
  have f: "files (world_of (handle_transcript_event
      (example_handler ''en-US'' ''en'' ''vtt'' ''both_text'') final_hi example_world))
      ''./output/translated_output_full.txt'' = Some (''Hi'' @ newline)"
    by (simp add: final_hi_outcome)
  show ?thesis
    using same_languages_skip_translation [OF a, of final_hi example_world] a c f by simp
qed

lemma process_request_example:
  "process_request example_config s (initial_world (\<lambda>i. 0) (\<lambda>i t s d. Inr (''<'' @ t @ ''>'')))
     = basic_transcribe example_config (Some example_store) s example_world"
  by (simp add: process_request_def TranscriptDataHandler_init_def example_store_def
      example_world_def initial_world_def)

lemma failing_stream_outcome:
  "basic_transcribe example_config (Some example_store) failing_stream example_world =
     Return None (world_of (handle_transcript_event
        (example_handler ''en-US'' ''en'' ''vtt'' ''both_text'') final_hi example_world))"
  by (simp add: basic_transcribe_def basic_transcribe_try_def failing_stream_def
      gather_def handler_of_config final_hi_outcome Let_def)

text \<open>
  C2. The claim asks that a failure of the stream or of the event handling reaches the caller
  as an error with its cause, and that the store then still gives the transcript collected so
  far. \<^const>\<open>basic_transcribe\<close> returns \<^verbatim>\<open>None\<close> instead, for a stream that cannot be started
  and for one that breaks after a final result; in the second case the store is empty although
  the final result was handled (its text is in the output file). \<^const>\<open>process_request\<close>
  hands that \<^verbatim>\<open>None\<close> on and keeps the store to itself.
\<close>

theorem failure_is_swallowed:
  "basic_transcribe example_config (Some example_store) failing_start example_world
     = Return None example_world \<and>
   (case basic_transcribe example_config (Some example_store) failing_stream example_world of
      Return x w' \<Rightarrow> x = None \<and> heap w' ! transcript_data example_store = [] \<and>
                      files w' ''./output/transcript_full.txt'' = Some (''Hi'' @ newline)
    | Raise e w' \<Rightarrow> False) \<and>
   (case process_request example_config failing_stream
           (initial_world (\<lambda>i. 0) (\<lambda>i t s d. Inr (''<'' @ t @ ''>''))) of
      Return x w' \<Rightarrow> x = None | Raise e w' \<Rightarrow> False)"
proof -
  have a: "basic_transcribe example_config (Some example_store) failing_start example_world
     = Return None example_world"
    by (simp add: basic_transcribe_def basic_transcribe_try_def failing_start_def)
  have b: "heap (world_of (handle_transcript_event
        (example_handler ''en-US'' ''en'' ''vtt'' ''both_text'') final_hi example_world))
        ! transcript_data example_store = []"
    by (simp add: handle_transcript_event_heap) (simp add: example_world_def example_store_def)
  have c: "files (world_of (handle_transcript_event
        (example_handler ''en-US'' ''en'' ''vtt'' ''both_text'') final_hi example_world))
        ''./output/transcript_full.txt'' = Some (''Hi'' @ newline)"
    by (simp add: final_hi_outcome)
  show ?thesis
    unfolding process_request_example failing_stream_outcome
    using a b c by simp
qed

end
